theory Spec2Isabelle
  imports Complex_Main "HOL-Library.List_Lexorder"
begin

section \<open>Python values\<close>

text \<open>
  A Python string is a sequence of Unicode code points, so the model's strings are
  lists of natural numbers. \<open>str\<close> turns a literal into the string of its code points;
  the literals of the theory are ASCII.
\<close>

type_synonym ustr = "nat list"

definition cp :: "char \<Rightarrow> nat" where
  "cp c = of_char c"

definition str :: "string \<Rightarrow> ustr" where
  "str cs = map cp cs"

abbreviation newline :: nat where
  "newline \<equiv> 0x0A"

lemma cp_eq_iff [simp]: "cp a = cp b \<longleftrightarrow> a = b"
  by (simp add: cp_def)

lemma str_eq_iff [simp]: "str a = str b \<longleftrightarrow> a = b"
  by (simp add: str_def inj_on_def inj_map_eq_map)

lemma str_Nil [simp]: "str [] = []"
  by (simp add: str_def)


lemma str_eq_Nil [simp]: "str a = [] \<longleftrightarrow> a = []" "[] = str a \<longleftrightarrow> a = []"
  by (auto simp: str_def)

lemma length_str [simp]: "length (str a) = length a"
  by (simp add: str_def)

lemma take_str [simp]: "take n (str a) = str (take n a)"
  by (simp add: str_def take_map)

lemma str_append [simp]: "str a @ str b = str (a @ b)" "str a @ str b @ r = str (a @ b) @ r"
  by (simp_all add: str_def)

text \<open>
  The script moves the results of \<^verbatim>\<open>json.load\<close> around untyped, so the model
  has one type of values: what \<^verbatim>\<open>json.load\<close> can return. \<open>JNull\<close> is Python's
  \<^verbatim>\<open>None\<close>. An object is the list of its items in insertion order; a lookup finds
  the first item with the key. A float is modelled by its value (NaN and the
  infinities, which the script would treat like any other non-zero float, have no
  representation).
\<close>

datatype json =
    JNull
  | JBool bool
  | JInt int
  | JFloat real
  | JStr ustr
  | JArr "json list"
  | JObj "(ustr \<times> json) list"

type_synonym dict = "(ustr \<times> json) list"

text \<open>
  The exceptions the script can meet. \<open>SystemExit n\<close> is what \<^verbatim>\<open>sys.exit(n)\<close>
  raises; no handler of the script catches it. \<open>ValueError\<close> is what unpacking
  a sequence of the wrong length raises.
\<close>

datatype exn = KeyError | TypeError | AttributeError | ValueError | SystemExit nat

text \<open>\<^verbatim>\<open>bool(v)\<close>: the truth value that \<^verbatim>\<open>if v\<close> and \<^verbatim>\<open>not v\<close> test.\<close>

fun truthy :: "json \<Rightarrow> bool" where
  "truthy JNull = False"
| "truthy (JBool b) = b"
| "truthy (JInt i) = (i \<noteq> 0)"
| "truthy (JFloat r) = (r \<noteq> 0)"
| "truthy (JStr s) = (s \<noteq> [])"
| "truthy (JArr xs) = (xs \<noteq> [])"
| "truthy (JObj kvs) = (kvs \<noteq> [])"

text \<open>\<^verbatim>\<open>v == 0\<close>: numbers compare by value, and \<^verbatim>\<open>False == 0\<close> holds.\<close>

fun eq_zero :: "json \<Rightarrow> bool" where
  "eq_zero (JInt i) = (i = 0)"
| "eq_zero (JFloat r) = (r = 0)"
| "eq_zero (JBool b) = (\<not> b)"
| "eq_zero _ = False"

text \<open>\<^verbatim>\<open>d.get(k, default)\<close>: only a dict has the method.\<close>

fun py_get :: "json \<Rightarrow> ustr \<Rightarrow> json \<Rightarrow> exn + json" where
  "py_get (JObj kvs) k dflt = Inr (case map_of kvs k of None \<Rightarrow> dflt | Some v \<Rightarrow> v)"
| "py_get _ k dflt = Inl AttributeError"

text \<open>\<^verbatim>\<open>v[k]\<close> with a string key: \<^verbatim>\<open>KeyError\<close> from a dict without the key,
  \<^verbatim>\<open>TypeError\<close> from every other value.\<close>

fun py_getitem :: "json \<Rightarrow> ustr \<Rightarrow> exn + json" where
  "py_getitem (JObj kvs) k = (case map_of kvs k of None \<Rightarrow> Inl KeyError | Some v \<Rightarrow> Inr v)"
| "py_getitem _ k = Inl TypeError"

text \<open>
  \<^verbatim>\<open>v[:7]\<close>. Strings and lists are cut to their first seven elements. A dict looks
  the slice up as a key: \<^verbatim>\<open>TypeError\<close> (unhashable) before Python 3.12 and
  \<^verbatim>\<open>KeyError\<close> from 3.12 on, so the exception is the parameter \<open>dx\<close>.
\<close>

fun py_slice7 :: "exn \<Rightarrow> json \<Rightarrow> exn + json" where
  "py_slice7 dx (JStr s) = Inr (JStr (take 7 s))"
| "py_slice7 dx (JArr xs) = Inr (JArr (take 7 xs))"
| "py_slice7 dx (JObj kvs) = Inl dx"
| "py_slice7 dx _ = Inl TypeError"

text \<open>\<^verbatim>\<open>len(v)\<close>.\<close>

fun py_len :: "json \<Rightarrow> exn + nat" where
  "py_len (JStr s) = Inr (length s)"
| "py_len (JArr xs) = Inr (length xs)"
| "py_len (JObj kvs) = Inr (length kvs)"
| "py_len _ = Inl TypeError"

text \<open>The elements that iterating over \<open>v\<close> yields: the characters of a string,
  the keys of a dict.\<close>

fun py_iter :: "json \<Rightarrow> exn + json list" where
  "py_iter (JArr xs) = Inr xs"
| "py_iter (JStr s) = Inr (map (\<lambda>c. JStr [c]) s)"
| "py_iter (JObj kvs) = Inr (map (\<lambda>kv. JStr (fst kv)) kvs)"
| "py_iter _ = Inl TypeError"

text \<open>
  A value inside an f-string. A string stands for itself; how Python prints the
  other values is the parameter \<open>fmt\<close>.
\<close>

fun fstr :: "(json \<Rightarrow> ustr) \<Rightarrow> json \<Rightarrow> ustr" where
  "fstr fmt (JStr s) = s"
| "fstr fmt v = fmt v"

text \<open>Sequencing of steps that may raise: the first exception ends the chain.\<close>

definition then_ok :: "exn + 'a \<Rightarrow> ('a \<Rightarrow> exn + 'b) \<Rightarrow> exn + 'b" where
  "then_ok r f = (case r of Inl e \<Rightarrow> Inl e | Inr x \<Rightarrow> f x)"

text \<open>\<^verbatim>\<open>c[k]\<close> on a dict the script has built itself.\<close>

definition dict_getitem :: "dict \<Rightarrow> ustr \<Rightarrow> exn + json" where
  "dict_getitem c k = (case map_of c k of None \<Rightarrow> Inl KeyError | Some v \<Rightarrow> Inr v)"

section \<open>Regular expressions\<close>

text \<open>
  The patterns of the script are sequences of four kinds of items: a word boundary
  \<^verbatim>\<open>\b\<close>, the anchors \<^verbatim>\<open>^\<close> and \<^verbatim>\<open>$\<close>, and a character class repeated between \<open>lo\<close> and \<open>hi\<close>
  times (\<open>None\<close>: no upper bound), greedily. A literal character is a class repeated
  exactly once.
\<close>

datatype atom = Bnd | Caret | Dollar | Rep "nat \<Rightarrow> bool" nat "nat option"

definition lit :: "nat \<Rightarrow> atom" where
  "lit x = Rep (\<lambda>c. c = x) 1 (Some 1)"

text \<open>
  The character classes, as Python's \<^verbatim>\<open>re\<close> has them for \<^verbatim>\<open>str\<close> patterns. The
  tables are those of Unicode 14.0 (Python 3.11).
  \<^item> \<^verbatim>\<open>\d\<close> is a decimal digit of any script (category Nd): 660 characters in the 62
    ranges of \<open>digit_ranges\<close>.
  \<^item> \<^verbatim>\<open>[a-zA-Z]\<close> under \<^verbatim>\<open>re.IGNORECASE\<close> is the 52 ASCII letters and the four
    characters whose case folding meets them: U+0130, U+0131, U+017F (long s) and
    U+212A (Kelvin sign).
  \<^item> \<^verbatim>\<open>\w\<close> is an alphanumeric character or the underscore: the 734 ranges of
    \<open>word_ranges\<close>, which contain the two classes above.
\<close>

definition in_ranges :: "(nat \<times> nat) list \<Rightarrow> nat \<Rightarrow> bool" where
  "in_ranges rs c = list_ex (\<lambda>(lo, hi). lo \<le> c \<and> c \<le> hi) rs"

definition digit_ranges :: "(nat \<times> nat) list" where
  "digit_ranges =
     [(0x30, 0x39), (0x660, 0x669), (0x6F0, 0x6F9), (0x7C0, 0x7C9), (0x966, 0x96F),
      (0x9E6, 0x9EF), (0xA66, 0xA6F), (0xAE6, 0xAEF), (0xB66, 0xB6F), (0xBE6, 0xBEF),
      (0xC66, 0xC6F), (0xCE6, 0xCEF), (0xD66, 0xD6F), (0xDE6, 0xDEF), (0xE50, 0xE59),
      (0xED0, 0xED9), (0xF20, 0xF29), (0x1040, 0x1049), (0x1090, 0x1099), (0x17E0, 0x17E9),
      (0x1810, 0x1819), (0x1946, 0x194F), (0x19D0, 0x19D9), (0x1A80, 0x1A89),
      (0x1A90, 0x1A99), (0x1B50, 0x1B59), (0x1BB0, 0x1BB9), (0x1C40, 0x1C49),
      (0x1C50, 0x1C59), (0xA620, 0xA629), (0xA8D0, 0xA8D9), (0xA900, 0xA909),
      (0xA9D0, 0xA9D9), (0xA9F0, 0xA9F9), (0xAA50, 0xAA59), (0xABF0, 0xABF9),
      (0xFF10, 0xFF19), (0x104A0, 0x104A9), (0x10D30, 0x10D39), (0x11066, 0x1106F),
      (0x110F0, 0x110F9), (0x11136, 0x1113F), (0x111D0, 0x111D9), (0x112F0, 0x112F9),
      (0x11450, 0x11459), (0x114D0, 0x114D9), (0x11650, 0x11659), (0x116C0, 0x116C9),
      (0x11730, 0x11739), (0x118E0, 0x118E9), (0x11950, 0x11959), (0x11C50, 0x11C59),
      (0x11D50, 0x11D59), (0x11DA0, 0x11DA9), (0x16A60, 0x16A69), (0x16AC0, 0x16AC9),
      (0x16B50, 0x16B59), (0x1D7CE, 0x1D7FF), (0x1E140, 0x1E149), (0x1E2F0, 0x1E2F9),
      (0x1E950, 0x1E959), (0x1FBF0, 0x1FBF9)]"

definition word_ranges :: "(nat \<times> nat) list" where
  "word_ranges =
     [(0x30, 0x39), (0x41, 0x5A), (0x5F, 0x5F), (0x61, 0x7A), (0xAA, 0xAA), (0xB2, 0xB3),
      (0xB5, 0xB5), (0xB9, 0xBA), (0xBC, 0xBE), (0xC0, 0xD6), (0xD8, 0xF6), (0xF8, 0x2C1),
      (0x2C6, 0x2D1), (0x2E0, 0x2E4), (0x2EC, 0x2EC), (0x2EE, 0x2EE), (0x370, 0x374),
      (0x376, 0x377), (0x37A, 0x37D), (0x37F, 0x37F), (0x386, 0x386), (0x388, 0x38A),
      (0x38C, 0x38C), (0x38E, 0x3A1), (0x3A3, 0x3F5), (0x3F7, 0x481), (0x48A, 0x52F),
      (0x531, 0x556), (0x559, 0x559), (0x560, 0x588), (0x5D0, 0x5EA), (0x5EF, 0x5F2),
      (0x620, 0x64A), (0x660, 0x669), (0x66E, 0x66F), (0x671, 0x6D3), (0x6D5, 0x6D5),
      (0x6E5, 0x6E6), (0x6EE, 0x6FC), (0x6FF, 0x6FF), (0x710, 0x710), (0x712, 0x72F),
      (0x74D, 0x7A5), (0x7B1, 0x7B1), (0x7C0, 0x7EA), (0x7F4, 0x7F5), (0x7FA, 0x7FA),
      (0x800, 0x815), (0x81A, 0x81A), (0x824, 0x824), (0x828, 0x828), (0x840, 0x858),
      (0x860, 0x86A), (0x870, 0x887), (0x889, 0x88E), (0x8A0, 0x8C9), (0x904, 0x939),
      (0x93D, 0x93D), (0x950, 0x950), (0x958, 0x961), (0x966, 0x96F), (0x971, 0x980),
      (0x985, 0x98C), (0x98F, 0x990), (0x993, 0x9A8), (0x9AA, 0x9B0), (0x9B2, 0x9B2),
      (0x9B6, 0x9B9), (0x9BD, 0x9BD), (0x9CE, 0x9CE), (0x9DC, 0x9DD), (0x9DF, 0x9E1),
      (0x9E6, 0x9F1), (0x9F4, 0x9F9), (0x9FC, 0x9FC), (0xA05, 0xA0A), (0xA0F, 0xA10),
      (0xA13, 0xA28), (0xA2A, 0xA30), (0xA32, 0xA33), (0xA35, 0xA36), (0xA38, 0xA39),
      (0xA59, 0xA5C), (0xA5E, 0xA5E), (0xA66, 0xA6F), (0xA72, 0xA74), (0xA85, 0xA8D),
      (0xA8F, 0xA91), (0xA93, 0xAA8), (0xAAA, 0xAB0), (0xAB2, 0xAB3), (0xAB5, 0xAB9),
      (0xABD, 0xABD), (0xAD0, 0xAD0), (0xAE0, 0xAE1), (0xAE6, 0xAEF), (0xAF9, 0xAF9),
      (0xB05, 0xB0C), (0xB0F, 0xB10), (0xB13, 0xB28), (0xB2A, 0xB30), (0xB32, 0xB33),
      (0xB35, 0xB39), (0xB3D, 0xB3D), (0xB5C, 0xB5D), (0xB5F, 0xB61), (0xB66, 0xB6F),
      (0xB71, 0xB77), (0xB83, 0xB83), (0xB85, 0xB8A), (0xB8E, 0xB90), (0xB92, 0xB95),
      (0xB99, 0xB9A), (0xB9C, 0xB9C), (0xB9E, 0xB9F), (0xBA3, 0xBA4), (0xBA8, 0xBAA),
      (0xBAE, 0xBB9), (0xBD0, 0xBD0), (0xBE6, 0xBF2), (0xC05, 0xC0C), (0xC0E, 0xC10),
      (0xC12, 0xC28), (0xC2A, 0xC39), (0xC3D, 0xC3D), (0xC58, 0xC5A), (0xC5D, 0xC5D),
      (0xC60, 0xC61), (0xC66, 0xC6F), (0xC78, 0xC7E), (0xC80, 0xC80), (0xC85, 0xC8C),
      (0xC8E, 0xC90), (0xC92, 0xCA8), (0xCAA, 0xCB3), (0xCB5, 0xCB9), (0xCBD, 0xCBD),
      (0xCDD, 0xCDE), (0xCE0, 0xCE1), (0xCE6, 0xCEF), (0xCF1, 0xCF2), (0xD04, 0xD0C),
      (0xD0E, 0xD10), (0xD12, 0xD3A), (0xD3D, 0xD3D), (0xD4E, 0xD4E), (0xD54, 0xD56),
      (0xD58, 0xD61), (0xD66, 0xD78), (0xD7A, 0xD7F), (0xD85, 0xD96), (0xD9A, 0xDB1),
      (0xDB3, 0xDBB), (0xDBD, 0xDBD), (0xDC0, 0xDC6), (0xDE6, 0xDEF), (0xE01, 0xE30),
      (0xE32, 0xE33), (0xE40, 0xE46), (0xE50, 0xE59), (0xE81, 0xE82), (0xE84, 0xE84),
      (0xE86, 0xE8A), (0xE8C, 0xEA3), (0xEA5, 0xEA5), (0xEA7, 0xEB0), (0xEB2, 0xEB3),
      (0xEBD, 0xEBD), (0xEC0, 0xEC4), (0xEC6, 0xEC6), (0xED0, 0xED9), (0xEDC, 0xEDF),
      (0xF00, 0xF00), (0xF20, 0xF33), (0xF40, 0xF47), (0xF49, 0xF6C), (0xF88, 0xF8C),
      (0x1000, 0x102A), (0x103F, 0x1049), (0x1050, 0x1055), (0x105A, 0x105D),
      (0x1061, 0x1061), (0x1065, 0x1066), (0x106E, 0x1070), (0x1075, 0x1081),
      (0x108E, 0x108E), (0x1090, 0x1099), (0x10A0, 0x10C5), (0x10C7, 0x10C7),
      (0x10CD, 0x10CD), (0x10D0, 0x10FA), (0x10FC, 0x1248), (0x124A, 0x124D),
      (0x1250, 0x1256), (0x1258, 0x1258), (0x125A, 0x125D), (0x1260, 0x1288),
      (0x128A, 0x128D), (0x1290, 0x12B0), (0x12B2, 0x12B5), (0x12B8, 0x12BE),
      (0x12C0, 0x12C0), (0x12C2, 0x12C5), (0x12C8, 0x12D6), (0x12D8, 0x1310),
      (0x1312, 0x1315), (0x1318, 0x135A), (0x1369, 0x137C), (0x1380, 0x138F),
      (0x13A0, 0x13F5), (0x13F8, 0x13FD), (0x1401, 0x166C), (0x166F, 0x167F),
      (0x1681, 0x169A), (0x16A0, 0x16EA), (0x16EE, 0x16F8), (0x1700, 0x1711),
      (0x171F, 0x1731), (0x1740, 0x1751), (0x1760, 0x176C), (0x176E, 0x1770),
      (0x1780, 0x17B3), (0x17D7, 0x17D7), (0x17DC, 0x17DC), (0x17E0, 0x17E9),
      (0x17F0, 0x17F9), (0x1810, 0x1819), (0x1820, 0x1878), (0x1880, 0x1884),
      (0x1887, 0x18A8), (0x18AA, 0x18AA), (0x18B0, 0x18F5), (0x1900, 0x191E),
      (0x1946, 0x196D), (0x1970, 0x1974), (0x1980, 0x19AB), (0x19B0, 0x19C9),
      (0x19D0, 0x19DA), (0x1A00, 0x1A16), (0x1A20, 0x1A54), (0x1A80, 0x1A89),
      (0x1A90, 0x1A99), (0x1AA7, 0x1AA7), (0x1B05, 0x1B33), (0x1B45, 0x1B4C),
      (0x1B50, 0x1B59), (0x1B83, 0x1BA0), (0x1BAE, 0x1BE5), (0x1C00, 0x1C23),
      (0x1C40, 0x1C49), (0x1C4D, 0x1C7D), (0x1C80, 0x1C88), (0x1C90, 0x1CBA),
      (0x1CBD, 0x1CBF), (0x1CE9, 0x1CEC), (0x1CEE, 0x1CF3), (0x1CF5, 0x1CF6),
      (0x1CFA, 0x1CFA), (0x1D00, 0x1DBF), (0x1E00, 0x1F15), (0x1F18, 0x1F1D),
      (0x1F20, 0x1F45), (0x1F48, 0x1F4D), (0x1F50, 0x1F57), (0x1F59, 0x1F59),
      (0x1F5B, 0x1F5B), (0x1F5D, 0x1F5D), (0x1F5F, 0x1F7D), (0x1F80, 0x1FB4),
      (0x1FB6, 0x1FBC), (0x1FBE, 0x1FBE), (0x1FC2, 0x1FC4), (0x1FC6, 0x1FCC),
      (0x1FD0, 0x1FD3), (0x1FD6, 0x1FDB), (0x1FE0, 0x1FEC), (0x1FF2, 0x1FF4),
      (0x1FF6, 0x1FFC), (0x2070, 0x2071), (0x2074, 0x2079), (0x207F, 0x2089),
      (0x2090, 0x209C), (0x2102, 0x2102), (0x2107, 0x2107), (0x210A, 0x2113),
      (0x2115, 0x2115), (0x2119, 0x211D), (0x2124, 0x2124), (0x2126, 0x2126),
      (0x2128, 0x2128), (0x212A, 0x212D), (0x212F, 0x2139), (0x213C, 0x213F),
      (0x2145, 0x2149), (0x214E, 0x214E), (0x2150, 0x2189), (0x2460, 0x249B),
      (0x24EA, 0x24FF), (0x2776, 0x2793), (0x2C00, 0x2CE4), (0x2CEB, 0x2CEE),
      (0x2CF2, 0x2CF3), (0x2CFD, 0x2CFD), (0x2D00, 0x2D25), (0x2D27, 0x2D27),
      (0x2D2D, 0x2D2D), (0x2D30, 0x2D67), (0x2D6F, 0x2D6F), (0x2D80, 0x2D96),
      (0x2DA0, 0x2DA6), (0x2DA8, 0x2DAE), (0x2DB0, 0x2DB6), (0x2DB8, 0x2DBE),
      (0x2DC0, 0x2DC6), (0x2DC8, 0x2DCE), (0x2DD0, 0x2DD6), (0x2DD8, 0x2DDE),
      (0x2E2F, 0x2E2F), (0x3005, 0x3007), (0x3021, 0x3029), (0x3031, 0x3035),
      (0x3038, 0x303C), (0x3041, 0x3096), (0x309D, 0x309F), (0x30A1, 0x30FA),
      (0x30FC, 0x30FF), (0x3105, 0x312F), (0x3131, 0x318E), (0x3192, 0x3195),
      (0x31A0, 0x31BF), (0x31F0, 0x31FF), (0x3220, 0x3229), (0x3248, 0x324F),
      (0x3251, 0x325F), (0x3280, 0x3289), (0x32B1, 0x32BF), (0x3400, 0x4DBF),
      (0x4E00, 0xA48C), (0xA4D0, 0xA4FD), (0xA500, 0xA60C), (0xA610, 0xA62B),
      (0xA640, 0xA66E), (0xA67F, 0xA69D), (0xA6A0, 0xA6EF), (0xA717, 0xA71F),
      (0xA722, 0xA788), (0xA78B, 0xA7CA), (0xA7D0, 0xA7D1), (0xA7D3, 0xA7D3),
      (0xA7D5, 0xA7D9), (0xA7F2, 0xA801), (0xA803, 0xA805), (0xA807, 0xA80A),
      (0xA80C, 0xA822), (0xA830, 0xA835), (0xA840, 0xA873), (0xA882, 0xA8B3),
      (0xA8D0, 0xA8D9), (0xA8F2, 0xA8F7), (0xA8FB, 0xA8FB), (0xA8FD, 0xA8FE),
      (0xA900, 0xA925), (0xA930, 0xA946), (0xA960, 0xA97C), (0xA984, 0xA9B2),
      (0xA9CF, 0xA9D9), (0xA9E0, 0xA9E4), (0xA9E6, 0xA9FE), (0xAA00, 0xAA28),
      (0xAA40, 0xAA42), (0xAA44, 0xAA4B), (0xAA50, 0xAA59), (0xAA60, 0xAA76),
      (0xAA7A, 0xAA7A), (0xAA7E, 0xAAAF), (0xAAB1, 0xAAB1), (0xAAB5, 0xAAB6),
      (0xAAB9, 0xAABD), (0xAAC0, 0xAAC0), (0xAAC2, 0xAAC2), (0xAADB, 0xAADD),
      (0xAAE0, 0xAAEA), (0xAAF2, 0xAAF4), (0xAB01, 0xAB06), (0xAB09, 0xAB0E),
      (0xAB11, 0xAB16), (0xAB20, 0xAB26), (0xAB28, 0xAB2E), (0xAB30, 0xAB5A),
      (0xAB5C, 0xAB69), (0xAB70, 0xABE2), (0xABF0, 0xABF9), (0xAC00, 0xD7A3),
      (0xD7B0, 0xD7C6), (0xD7CB, 0xD7FB), (0xF900, 0xFA6D), (0xFA70, 0xFAD9),
      (0xFB00, 0xFB06), (0xFB13, 0xFB17), (0xFB1D, 0xFB1D), (0xFB1F, 0xFB28),
      (0xFB2A, 0xFB36), (0xFB38, 0xFB3C), (0xFB3E, 0xFB3E), (0xFB40, 0xFB41),
      (0xFB43, 0xFB44), (0xFB46, 0xFBB1), (0xFBD3, 0xFD3D), (0xFD50, 0xFD8F),
      (0xFD92, 0xFDC7), (0xFDF0, 0xFDFB), (0xFE70, 0xFE74), (0xFE76, 0xFEFC),
      (0xFF10, 0xFF19), (0xFF21, 0xFF3A), (0xFF41, 0xFF5A), (0xFF66, 0xFFBE),
      (0xFFC2, 0xFFC7), (0xFFCA, 0xFFCF), (0xFFD2, 0xFFD7), (0xFFDA, 0xFFDC),
      (0x10000, 0x1000B), (0x1000D, 0x10026), (0x10028, 0x1003A), (0x1003C, 0x1003D),
      (0x1003F, 0x1004D), (0x10050, 0x1005D), (0x10080, 0x100FA), (0x10107, 0x10133),
      (0x10140, 0x10178), (0x1018A, 0x1018B), (0x10280, 0x1029C), (0x102A0, 0x102D0),
      (0x102E1, 0x102FB), (0x10300, 0x10323), (0x1032D, 0x1034A), (0x10350, 0x10375),
      (0x10380, 0x1039D), (0x103A0, 0x103C3), (0x103C8, 0x103CF), (0x103D1, 0x103D5),
      (0x10400, 0x1049D), (0x104A0, 0x104A9), (0x104B0, 0x104D3), (0x104D8, 0x104FB),
      (0x10500, 0x10527), (0x10530, 0x10563), (0x10570, 0x1057A), (0x1057C, 0x1058A),
      (0x1058C, 0x10592), (0x10594, 0x10595), (0x10597, 0x105A1), (0x105A3, 0x105B1),
      (0x105B3, 0x105B9), (0x105BB, 0x105BC), (0x10600, 0x10736), (0x10740, 0x10755),
      (0x10760, 0x10767), (0x10780, 0x10785), (0x10787, 0x107B0), (0x107B2, 0x107BA),
      (0x10800, 0x10805), (0x10808, 0x10808), (0x1080A, 0x10835), (0x10837, 0x10838),
      (0x1083C, 0x1083C), (0x1083F, 0x10855), (0x10858, 0x10876), (0x10879, 0x1089E),
      (0x108A7, 0x108AF), (0x108E0, 0x108F2), (0x108F4, 0x108F5), (0x108FB, 0x1091B),
      (0x10920, 0x10939), (0x10980, 0x109B7), (0x109BC, 0x109CF), (0x109D2, 0x10A00),
      (0x10A10, 0x10A13), (0x10A15, 0x10A17), (0x10A19, 0x10A35), (0x10A40, 0x10A48),
      (0x10A60, 0x10A7E), (0x10A80, 0x10A9F), (0x10AC0, 0x10AC7), (0x10AC9, 0x10AE4),
      (0x10AEB, 0x10AEF), (0x10B00, 0x10B35), (0x10B40, 0x10B55), (0x10B58, 0x10B72),
      (0x10B78, 0x10B91), (0x10BA9, 0x10BAF), (0x10C00, 0x10C48), (0x10C80, 0x10CB2),
      (0x10CC0, 0x10CF2), (0x10CFA, 0x10D23), (0x10D30, 0x10D39), (0x10E60, 0x10E7E),
      (0x10E80, 0x10EA9), (0x10EB0, 0x10EB1), (0x10F00, 0x10F27), (0x10F30, 0x10F45),
      (0x10F51, 0x10F54), (0x10F70, 0x10F81), (0x10FB0, 0x10FCB), (0x10FE0, 0x10FF6),
      (0x11003, 0x11037), (0x11052, 0x1106F), (0x11071, 0x11072), (0x11075, 0x11075),
      (0x11083, 0x110AF), (0x110D0, 0x110E8), (0x110F0, 0x110F9), (0x11103, 0x11126),
      (0x11136, 0x1113F), (0x11144, 0x11144), (0x11147, 0x11147), (0x11150, 0x11172),
      (0x11176, 0x11176), (0x11183, 0x111B2), (0x111C1, 0x111C4), (0x111D0, 0x111DA),
      (0x111DC, 0x111DC), (0x111E1, 0x111F4), (0x11200, 0x11211), (0x11213, 0x1122B),
      (0x11280, 0x11286), (0x11288, 0x11288), (0x1128A, 0x1128D), (0x1128F, 0x1129D),
      (0x1129F, 0x112A8), (0x112B0, 0x112DE), (0x112F0, 0x112F9), (0x11305, 0x1130C),
      (0x1130F, 0x11310), (0x11313, 0x11328), (0x1132A, 0x11330), (0x11332, 0x11333),
      (0x11335, 0x11339), (0x1133D, 0x1133D), (0x11350, 0x11350), (0x1135D, 0x11361),
      (0x11400, 0x11434), (0x11447, 0x1144A), (0x11450, 0x11459), (0x1145F, 0x11461),
      (0x11480, 0x114AF), (0x114C4, 0x114C5), (0x114C7, 0x114C7), (0x114D0, 0x114D9),
      (0x11580, 0x115AE), (0x115D8, 0x115DB), (0x11600, 0x1162F), (0x11644, 0x11644),
      (0x11650, 0x11659), (0x11680, 0x116AA), (0x116B8, 0x116B8), (0x116C0, 0x116C9),
      (0x11700, 0x1171A), (0x11730, 0x1173B), (0x11740, 0x11746), (0x11800, 0x1182B),
      (0x118A0, 0x118F2), (0x118FF, 0x11906), (0x11909, 0x11909), (0x1190C, 0x11913),
      (0x11915, 0x11916), (0x11918, 0x1192F), (0x1193F, 0x1193F), (0x11941, 0x11941),
      (0x11950, 0x11959), (0x119A0, 0x119A7), (0x119AA, 0x119D0), (0x119E1, 0x119E1),
      (0x119E3, 0x119E3), (0x11A00, 0x11A00), (0x11A0B, 0x11A32), (0x11A3A, 0x11A3A),
      (0x11A50, 0x11A50), (0x11A5C, 0x11A89), (0x11A9D, 0x11A9D), (0x11AB0, 0x11AF8),
      (0x11C00, 0x11C08), (0x11C0A, 0x11C2E), (0x11C40, 0x11C40), (0x11C50, 0x11C6C),
      (0x11C72, 0x11C8F), (0x11D00, 0x11D06), (0x11D08, 0x11D09), (0x11D0B, 0x11D30),
      (0x11D46, 0x11D46), (0x11D50, 0x11D59), (0x11D60, 0x11D65), (0x11D67, 0x11D68),
      (0x11D6A, 0x11D89), (0x11D98, 0x11D98), (0x11DA0, 0x11DA9), (0x11EE0, 0x11EF2),
      (0x11FB0, 0x11FB0), (0x11FC0, 0x11FD4), (0x12000, 0x12399), (0x12400, 0x1246E),
      (0x12480, 0x12543), (0x12F90, 0x12FF0), (0x13000, 0x1342E), (0x14400, 0x14646),
      (0x16800, 0x16A38), (0x16A40, 0x16A5E), (0x16A60, 0x16A69), (0x16A70, 0x16ABE),
      (0x16AC0, 0x16AC9), (0x16AD0, 0x16AED), (0x16B00, 0x16B2F), (0x16B40, 0x16B43),
      (0x16B50, 0x16B59), (0x16B5B, 0x16B61), (0x16B63, 0x16B77), (0x16B7D, 0x16B8F),
      (0x16E40, 0x16E96), (0x16F00, 0x16F4A), (0x16F50, 0x16F50), (0x16F93, 0x16F9F),
      (0x16FE0, 0x16FE1), (0x16FE3, 0x16FE3), (0x17000, 0x187F7), (0x18800, 0x18CD5),
      (0x18D00, 0x18D08), (0x1AFF0, 0x1AFF3), (0x1AFF5, 0x1AFFB), (0x1AFFD, 0x1AFFE),
      (0x1B000, 0x1B122), (0x1B150, 0x1B152), (0x1B164, 0x1B167), (0x1B170, 0x1B2FB),
      (0x1BC00, 0x1BC6A), (0x1BC70, 0x1BC7C), (0x1BC80, 0x1BC88), (0x1BC90, 0x1BC99),
      (0x1D2E0, 0x1D2F3), (0x1D360, 0x1D378), (0x1D400, 0x1D454), (0x1D456, 0x1D49C),
      (0x1D49E, 0x1D49F), (0x1D4A2, 0x1D4A2), (0x1D4A5, 0x1D4A6), (0x1D4A9, 0x1D4AC),
      (0x1D4AE, 0x1D4B9), (0x1D4BB, 0x1D4BB), (0x1D4BD, 0x1D4C3), (0x1D4C5, 0x1D505),
      (0x1D507, 0x1D50A), (0x1D50D, 0x1D514), (0x1D516, 0x1D51C), (0x1D51E, 0x1D539),
      (0x1D53B, 0x1D53E), (0x1D540, 0x1D544), (0x1D546, 0x1D546), (0x1D54A, 0x1D550),
      (0x1D552, 0x1D6A5), (0x1D6A8, 0x1D6C0), (0x1D6C2, 0x1D6DA), (0x1D6DC, 0x1D6FA),
      (0x1D6FC, 0x1D714), (0x1D716, 0x1D734), (0x1D736, 0x1D74E), (0x1D750, 0x1D76E),
      (0x1D770, 0x1D788), (0x1D78A, 0x1D7A8), (0x1D7AA, 0x1D7C2), (0x1D7C4, 0x1D7CB),
      (0x1D7CE, 0x1D7FF), (0x1DF00, 0x1DF1E), (0x1E100, 0x1E12C), (0x1E137, 0x1E13D),
      (0x1E140, 0x1E149), (0x1E14E, 0x1E14E), (0x1E290, 0x1E2AD), (0x1E2C0, 0x1E2EB),
      (0x1E2F0, 0x1E2F9), (0x1E7E0, 0x1E7E6), (0x1E7E8, 0x1E7EB), (0x1E7ED, 0x1E7EE),
      (0x1E7F0, 0x1E7FE), (0x1E800, 0x1E8C4), (0x1E8C7, 0x1E8CF), (0x1E900, 0x1E943),
      (0x1E94B, 0x1E94B), (0x1E950, 0x1E959), (0x1EC71, 0x1ECAB), (0x1ECAD, 0x1ECAF),
      (0x1ECB1, 0x1ECB4), (0x1ED01, 0x1ED2D), (0x1ED2F, 0x1ED3D), (0x1EE00, 0x1EE03),
      (0x1EE05, 0x1EE1F), (0x1EE21, 0x1EE22), (0x1EE24, 0x1EE24), (0x1EE27, 0x1EE27),
      (0x1EE29, 0x1EE32), (0x1EE34, 0x1EE37), (0x1EE39, 0x1EE39), (0x1EE3B, 0x1EE3B),
      (0x1EE42, 0x1EE42), (0x1EE47, 0x1EE47), (0x1EE49, 0x1EE49), (0x1EE4B, 0x1EE4B),
      (0x1EE4D, 0x1EE4F), (0x1EE51, 0x1EE52), (0x1EE54, 0x1EE54), (0x1EE57, 0x1EE57),
      (0x1EE59, 0x1EE59), (0x1EE5B, 0x1EE5B), (0x1EE5D, 0x1EE5D), (0x1EE5F, 0x1EE5F),
      (0x1EE61, 0x1EE62), (0x1EE64, 0x1EE64), (0x1EE67, 0x1EE6A), (0x1EE6C, 0x1EE72),
      (0x1EE74, 0x1EE77), (0x1EE79, 0x1EE7C), (0x1EE7E, 0x1EE7E), (0x1EE80, 0x1EE89),
      (0x1EE8B, 0x1EE9B), (0x1EEA1, 0x1EEA3), (0x1EEA5, 0x1EEA9), (0x1EEAB, 0x1EEBB),
      (0x1F100, 0x1F10C), (0x1FBF0, 0x1FBF9), (0x20000, 0x2A6DF), (0x2A700, 0x2B738),
      (0x2B740, 0x2B81D), (0x2B820, 0x2CEA1), (0x2CEB0, 0x2EBE0), (0x2F800, 0x2FA1D),
      (0x30000, 0x3134A)]"

definition is_digit :: "nat \<Rightarrow> bool" where
  "is_digit c = in_ranges digit_ranges c"

definition is_letter :: "nat \<Rightarrow> bool" where
  "is_letter c =
     (cp CHR ''A'' \<le> c \<and> c \<le> cp CHR ''Z'' \<or> cp CHR ''a'' \<le> c \<and> c \<le> cp CHR ''z''
      \<or> c = 0x130 \<or> c = 0x131 \<or> c = 0x17F \<or> c = 0x212A)"

definition is_word :: "nat \<Rightarrow> bool" where
  "is_word c = (is_digit c \<or> is_letter c \<or> in_ranges word_ranges c)"

text \<open>\<^verbatim>\<open>\b\<close> holds between the previous character \<open>p\<close> (\<open>None\<close> at the start) and
  the rest \<open>s\<close> when exactly one side is a word character.\<close>

definition word_before :: "nat option \<Rightarrow> bool" where
  "word_before p = (case p of None \<Rightarrow> False | Some c \<Rightarrow> is_word c)"

definition word_next :: "ustr \<Rightarrow> bool" where
  "word_next s = (case s of [] \<Rightarrow> False | c # _ \<Rightarrow> is_word c)"

definition at_boundary :: "nat option \<Rightarrow> ustr \<Rightarrow> bool" where
  "at_boundary p s = (word_before p \<noteq> word_next s)"

text \<open>\<^verbatim>\<open>$\<close> without \<^verbatim>\<open>re.MULTILINE\<close>: the end of the string, or just before a newline
  that ends it. \<^verbatim>\<open>^\<close> is the start of the string: no previous character.\<close>

definition at_end :: "ustr \<Rightarrow> bool" where
  "at_end s = (s = [] \<or> s = [newline])"

text \<open>
  The backtracking matcher: \<open>match_here r p s\<close> is the number of characters the
  first successful attempt of \<open>r\<close> consumes from \<open>s\<close>. A repetition first tries one
  more character, and only when everything after that fails stops where it is.
\<close>

fun match_here :: "atom list \<Rightarrow> nat option \<Rightarrow> ustr \<Rightarrow> nat option" where
  "match_here [] p s = Some 0"
| "match_here (Bnd # r) p s = (if at_boundary p s then match_here r p s else None)"
| "match_here (Caret # r) p s = (if p = None then match_here r p s else None)"
| "match_here (Dollar # r) p s = (if at_end s then match_here r p s else None)"
| "match_here (Rep cls lo hi # r) p [] = (if lo = 0 then match_here r p [] else None)"
| "match_here (Rep cls lo hi # r) p (c # cs) =
     (case (if hi \<noteq> Some 0 \<and> cls c
            then match_here (Rep cls (lo - 1) (map_option (\<lambda>h. h - 1) hi) # r) (Some c) cs
            else None) of
        Some n \<Rightarrow> Some (Suc n)
      | None \<Rightarrow> if lo = 0 then match_here r p (c # cs) else None)"

lemma match_here_le: "match_here r p s = Some n \<Longrightarrow> n \<le> length s"
  by (induction r p s arbitrary: n rule: match_here.induct)
     (auto split: if_splits option.splits)

text \<open>
  \<^verbatim>\<open>pattern.findall(s)\<close> for a pattern without groups: the matches from left to
  right, each search resuming where the last match ended. The patterns of the
  script cannot match the empty string; on an empty match the scan just moves on.
\<close>

function findall_from :: "atom list \<Rightarrow> nat option \<Rightarrow> ustr \<Rightarrow> ustr list" where
  "findall_from r p s =
     (case match_here r p s of
        Some (Suc n) \<Rightarrow>
          take (Suc n) s # findall_from r (Some (s ! n)) (drop (Suc n) s)
      | _ \<Rightarrow> (case s of [] \<Rightarrow> [] | c # cs \<Rightarrow> findall_from r (Some c) cs))"
  by pat_completeness auto
termination
proof (relation "measure (\<lambda>(r, p, s). length s)")
  show "wf (measure (\<lambda>(r, p, s). length s))" by simp
next
  fix r :: "atom list" and p s x2 n
  assume "match_here r p s = Some x2" "x2 = Suc n"
  then have "Suc n \<le> length s" using match_here_le by blast
  then show "((r, Some (s ! n), drop (Suc n) s), r, p, s) \<in> measure (\<lambda>(r, p, s). length s)"
    by simp
qed auto

definition findall :: "atom list \<Rightarrow> ustr \<Rightarrow> ustr list" where
  "findall r s = findall_from r None s"

text \<open>\<^verbatim>\<open>pattern.match(s)\<close> as a truth value: a match at the start of \<open>s\<close>.\<close>

definition matches_start :: "atom list \<Rightarrow> ustr \<Rightarrow> bool" where
  "matches_start r s = (match_here r None s \<noteq> None)"

text \<open>
  \<^verbatim>\<open>pattern.sub(f, s)\<close>: every match, from left to right, is replaced by \<open>f\<close> of the
  matched text; the text between matches is kept.
\<close>

function sub_from :: "atom list \<Rightarrow> (ustr \<Rightarrow> ustr) \<Rightarrow> nat option \<Rightarrow> ustr \<Rightarrow> ustr" where
  "sub_from r f p s =
     (case match_here r p s of
        Some (Suc n) \<Rightarrow>
          f (take (Suc n) s) @ sub_from r f (Some (s ! n)) (drop (Suc n) s)
      | _ \<Rightarrow> (case s of [] \<Rightarrow> [] | c # cs \<Rightarrow> c # sub_from r f (Some c) cs))"
  by pat_completeness auto
termination
proof (relation "measure (\<lambda>(r, f, p, s). length s)")
  show "wf (measure (\<lambda>(r, f, p, s). length s))" by simp
next
  fix r :: "atom list" and f :: "ustr \<Rightarrow> ustr" and p s x2 n
  assume "match_here r p s = Some x2" "x2 = Suc n"
  then have "Suc n \<le> length s" using match_here_le by blast
  then show "((r, f, Some (s ! n), drop (Suc n) s), r, f, p, s)
      \<in> measure (\<lambda>(r, f, p, s). length s)"
    by simp
qed auto

text \<open>The issue-key pattern of \<^verbatim>\<open>analyze_commits\<close>:
  \<^verbatim>\<open>re.compile(r"\b[a-zA-Z]{3,5}-\d{2,6}\b", re.IGNORECASE)\<close>.\<close>

definition issue_pattern :: "atom list" where
  "issue_pattern =
     [Bnd, Rep is_letter 3 (Some 5), lit (cp CHR ''-''), Rep is_digit 2 (Some 6), Bnd]"

text \<open>
  The tokens of the pattern, read off its five items: 3 to 5 characters of the class
  \<^verbatim>\<open>[a-zA-Z]\<close> under \<^verbatim>\<open>re.IGNORECASE\<close>, a hyphen and 2 to 6 characters of the class \<^verbatim>\<open>\d\<close>,
  with no word character before the token (\<open>p\<close>) and none after it (\<open>rest\<close>). \<open>n\<close> is
  the length of the token.
\<close>

definition issue_key_at :: "nat option \<Rightarrow> ustr \<Rightarrow> nat \<Rightarrow> bool" where
  "issue_key_at p s n =
     (\<exists>ls ds rest.
        s = ls @ cp CHR ''-'' # ds @ rest \<and> n = length ls + 1 + length ds
        \<and> 3 \<le> length ls \<and> length ls \<le> 5 \<and> list_all is_letter ls
        \<and> 2 \<le> length ds \<and> length ds \<le> 6 \<and> list_all is_digit ds
        \<and> \<not> word_before p \<and> \<not> word_next rest)"

text \<open>
  What the specification says the pattern matches, in its own words: a
  word-boundary-delimited token of 3 to 5 alphabetic characters (the letters a to z,
  in either case), a literal hyphen and 2 to 6 digits (0 to 9).
\<close>

definition ascii_letter :: "nat \<Rightarrow> bool" where
  "ascii_letter c =
     (cp CHR ''A'' \<le> c \<and> c \<le> cp CHR ''Z'' \<or> cp CHR ''a'' \<le> c \<and> c \<le> cp CHR ''z'')"

definition ascii_digit :: "nat \<Rightarrow> bool" where
  "ascii_digit c = (cp CHR ''0'' \<le> c \<and> c \<le> cp CHR ''9'')"

definition spec_issue_key_at :: "nat option \<Rightarrow> ustr \<Rightarrow> nat \<Rightarrow> bool" where
  "spec_issue_key_at p s n =
     (\<exists>ls ds rest.
        s = ls @ cp CHR ''-'' # ds @ rest \<and> n = length ls + 1 + length ds
        \<and> 3 \<le> length ls \<and> length ls \<le> 5 \<and> list_all ascii_letter ls
        \<and> 2 \<le> length ds \<and> length ds \<le> 6 \<and> list_all ascii_digit ds
        \<and> \<not> word_before p \<and> \<not> word_next rest)"

text \<open>The pull-request pattern of \<^verbatim>\<open>export_to_markdown\<close>: \<^verbatim>\<open>re.compile(r"#(\d+)")\<close>.\<close>

definition pr_pattern :: "atom list" where
  "pr_pattern = [lit (cp CHR ''#''), Rep is_digit 1 None]"

text \<open>The pattern of \<^verbatim>\<open>validate_build_number\<close>: \<^verbatim>\<open>re.compile(r'^\d+\.\d+\.\d+$')\<close>.\<close>

definition build_pattern :: "atom list" where
  "build_pattern =
     [Caret, Rep is_digit 1 None, lit (cp CHR ''.''), Rep is_digit 1 None, lit (cp CHR ''.''),
      Rep is_digit 1 None, Dollar]"

text \<open>
  \<^verbatim>\<open>str.upper()\<close> on the characters that a match of the issue-key pattern can
  contain (the letters of \<open>is_letter\<close>, the hyphen and the digits): a to z move to A
  to Z, the long s U+017F to S and the dotless i U+0131 to I; the other characters
  stay. The script calls \<^verbatim>\<open>upper\<close> on such matches only.
\<close>

definition upper_char :: "nat \<Rightarrow> nat" where
  "upper_char c =
     (if cp CHR ''a'' \<le> c \<and> c \<le> cp CHR ''z'' then c - 32
      else if c = 0x17F then cp CHR ''S''
      else if c = 0x131 then cp CHR ''I''
      else c)"

definition upper :: "ustr \<Rightarrow> ustr" where
  "upper s = map upper_char s"

text \<open>The letters that \<^verbatim>\<open>upper\<close> leaves in a match: A to Z, and U+0130 and U+212A, which
  are their own upper case.\<close>

definition upper_letter :: "nat \<Rightarrow> bool" where
  "upper_letter c = (cp CHR ''A'' \<le> c \<and> c \<le> cp CHR ''Z'' \<or> c = 0x130 \<or> c = 0x212A)"

text \<open>\<^verbatim>\<open>v.split("\n")[0]\<close>: the text before the first newline; only a string has
  the method.\<close>

definition first_line :: "ustr \<Rightarrow> ustr" where
  "first_line s = takeWhile (\<lambda>c. c \<noteq> newline) s"

fun split_first :: "json \<Rightarrow> exn + ustr" where
  "split_first (JStr s) = Inr (first_line s)"
| "split_first _ = Inl AttributeError"

section \<open>Effects\<close>

text \<open>
  What a run does to the outside is a trace of events in the order of the source:
  each \<^verbatim>\<open>print\<close> (one constructor of \<open>message\<close> per \<^verbatim>\<open>print\<close> statement), the
  request to Azure DevOps, the call of the \<^verbatim>\<open>gh\<close> tool, the opening of the report
  file and each \<^verbatim>\<open>f.write\<close>.
\<close>

datatype message =
    Usage
  | ConfigLoadFailed
  | FetchingBuild json
  | ErrorFetchingBuild json
  | InvalidJsonBuild json
  | NoBuildFound json
  | BuildNotSucceeded json
  | NoSourceVersion json
  | BuildCommit json json
  | CompareUrl ustr
  | FetchingCommits json json json
  | GhApiError ustr
  | GhTimedOut
  | GhNotFound
  | GhInvalidJson
  | FoundCommits nat
  | CommitLine json json json ustr
  | SkippingMalformedCommit
  | SkippingMissingMessage
  | ReferencesHeader
  | ReferenceLine ustr ustr
  | NoneFound
  | SkippingMissingField
  | MarkdownCreated ustr
  | ErrorWritingFile ustr
  | ComparingFromArgs ustr ustr
  | ProvideExactlyTwo
  | ComparingFromConfig json json
  | BadBuildNumberFormat json
  | CouldNotGetTwo
  | NoCommitsFound

datatype event =
    Print message
  | HttpGet ustr json
  | GhApi ustr
  | FileOpen ustr
  | FileWrite ustr

text \<open>
  A computation yields the trace so far and either the exception that ended it or
  its value.
\<close>

type_synonym 'a run = "event list \<times> (exn + 'a)"

definition ret :: "'a \<Rightarrow> 'a run" where
  "ret x = ([], Inr x)"

definition raise :: "exn \<Rightarrow> 'a run" where
  "raise e = ([], Inl e)"

definition emit :: "event \<Rightarrow> unit run" where
  "emit ev = ([ev], Inr ())"

definition lift :: "exn + 'a \<Rightarrow> 'a run" where
  "lift r = ([], r)"

definition and_then :: "'a run \<Rightarrow> ('a \<Rightarrow> 'b run) \<Rightarrow> 'b run" where
  "and_then m f =
     (case m of
        (l, Inl e) \<Rightarrow> (l, Inl e)
      | (l, Inr x) \<Rightarrow> (case f x of (l', r) \<Rightarrow> (l @ l', r)))"

text \<open>The exit status of the process: 0 after a normal return, the argument of
  \<^verbatim>\<open>sys.exit\<close>, and 1 when another exception reaches the top level.\<close>

fun exit_code :: "'a run \<Rightarrow> nat" where
  "exit_code (l, Inr x) = 0"
| "exit_code (l, Inl (SystemExit n)) = n"
| "exit_code (l, Inl e) = 1"

text \<open>
  The outside world of one run: the configuration file, the answers of the two
  services, the library functions that are not modelled, the clock and the file
  system (\<^verbatim>\<open>open\<close> may fail with \<^verbatim>\<open>IOError\<close>; writes to an open file succeed).
\<close>

datatype http_outcome = RequestFailed | Response "json option"

datatype proc_outcome = Completed int ustr ustr | TimeoutExpired | FileNotFound

record env =
  load_config :: "ustr \<Rightarrow> json option"
  http_get :: "ustr \<Rightarrow> json \<Rightarrow> json \<Rightarrow> json \<Rightarrow> json \<Rightarrow> http_outcome"
  gh_api :: "ustr \<Rightarrow> proc_outcome"
  json_loads :: "ustr \<Rightarrow> json option"
  fmt :: "json \<Rightarrow> ustr"
  dict_slice_exn :: exn
  now :: ustr
  open_fails :: "ustr \<Rightarrow> bool"
  path_stem :: "ustr \<Rightarrow> ustr"

section \<open>The script\<close>

subsection \<open>\<^verbatim>\<open>get_azure_build_commit\<close>\<close>

text \<open>
  \<^verbatim>\<open>next((b for b in data["value"] if b.get("result") == "succeeded"), None)\<close>:
  the entries are tried in order and the search stops at the first hit.
\<close>

fun first_succeeded :: "json list \<Rightarrow> exn + json" where
  "first_succeeded [] = Inr JNull"
| "first_succeeded (b # bs) =
     (case py_get b (str ''result'') JNull of
        Inl e \<Rightarrow> Inl e
      | Inr r \<Rightarrow> if r = JStr (str ''succeeded'') then Inr b else first_succeeded bs)"

definition azure_url :: "env \<Rightarrow> json \<Rightarrow> json \<Rightarrow> ustr" where
  "azure_url w org project =
     (str ''https://dev.azure.com/'') @ fstr (fmt w) org @ (str ''/'') @ fstr (fmt w) project
       @ (str ''/_apis/build/builds'')"

definition get_azure_build_commit ::
  "env \<Rightarrow> json \<Rightarrow> json \<Rightarrow> json \<Rightarrow> json \<Rightarrow> json \<Rightarrow> json \<Rightarrow> json run" where
  "get_azure_build_commit w org project definition_id branch build_number pat =
     (let url = azure_url w org project
      in and_then (emit (Print (FetchingBuild build_number))) (\<lambda>_.
         and_then (emit (HttpGet url build_number)) (\<lambda>_.
         case http_get w url definition_id branch build_number pat of
           RequestFailed \<Rightarrow>
             and_then (emit (Print (ErrorFetchingBuild build_number))) (\<lambda>_. ret JNull)
         | Response None \<Rightarrow>
             and_then (emit (Print (InvalidJsonBuild build_number))) (\<lambda>_. ret JNull)
         | Response (Some data) \<Rightarrow>
             and_then (lift (py_get data (str ''count'') (JInt 0))) (\<lambda>count.
             if eq_zero count
             then and_then (emit (Print (NoBuildFound build_number))) (\<lambda>_. ret JNull)
             else
               and_then (lift (py_getitem data (str ''value''))) (\<lambda>v.
               and_then (lift (py_iter v)) (\<lambda>bs.
               and_then (lift (first_succeeded bs)) (\<lambda>build.
               if \<not> truthy build
               then and_then (emit (Print (BuildNotSucceeded build_number))) (\<lambda>_. ret JNull)
               else
                 and_then (lift (py_get build (str ''sourceVersion'') JNull)) (\<lambda>commit_sha.
                 if \<not> truthy commit_sha
                 then and_then (emit (Print (NoSourceVersion build_number))) (\<lambda>_. ret JNull)
                 else and_then (emit (Print (BuildCommit build_number commit_sha))) (\<lambda>_.
                      ret commit_sha)))))))))"

subsection \<open>\<^verbatim>\<open>get_github_commits_between\<close>\<close>

text \<open>The dict built in the loop body, its four subscriptions in the order of the
  source; the first exception ends it.\<close>

definition commit_info :: "exn \<Rightarrow> json \<Rightarrow> exn + dict" where
  "commit_info dx c =
     then_ok (py_getitem c (str ''sha'')) (\<lambda>sha.
     then_ok (py_slice7 dx sha) (\<lambda>sha7.
     then_ok (py_getitem c (str ''commit'')) (\<lambda>commit.
     then_ok (py_getitem commit (str ''message'')) (\<lambda>message.
     then_ok (py_getitem commit (str ''author'')) (\<lambda>author.
     then_ok (py_getitem author (str ''name'')) (\<lambda>name.
     then_ok (py_getitem author (str ''date'')) (\<lambda>date.
     Inr [((str ''sha''), sha7), ((str ''message''), message), ((str ''author''), name),
          ((str ''date''), date)])))))))"

text \<open>The line printed after the append: \<^verbatim>\<open>.split\<close> exists on strings only.\<close>

definition printed_line :: "dict \<Rightarrow> exn + message" where
  "printed_line info =
     then_ok (dict_getitem info (str ''message'')) (\<lambda>message.
     then_ok (split_first message) (\<lambda>msg_summary.
     then_ok (dict_getitem info (str ''sha'')) (\<lambda>sha.
     then_ok (dict_getitem info (str ''author'')) (\<lambda>author.
     then_ok (dict_getitem info (str ''date'')) (\<lambda>date.
     Inr (CommitLine sha author date msg_summary))))))"

text \<open>
  The loop over the commits. \<^verbatim>\<open>except KeyError\<close> skips to the next entry; any other
  exception leaves the function. The result lists the appended dicts in the order
  of the appends.
\<close>

fun collect_commits :: "exn \<Rightarrow> json list \<Rightarrow> dict list run" where
  "collect_commits dx [] = ret []"
| "collect_commits dx (c # cs) =
     (case commit_info dx c of
        Inl e \<Rightarrow>
          (if e = KeyError
           then and_then (emit (Print SkippingMalformedCommit)) (\<lambda>_. collect_commits dx cs)
           else raise e)
      | Inr info \<Rightarrow>
          (case printed_line info of
             Inl e \<Rightarrow>
               (if e = KeyError
                then and_then (emit (Print SkippingMalformedCommit)) (\<lambda>_.
                     and_then (collect_commits dx cs) (\<lambda>rest. ret (info # rest)))
                else raise e)
           | Inr line \<Rightarrow>
               and_then (emit (Print line)) (\<lambda>_.
               and_then (collect_commits dx cs) (\<lambda>rest. ret (info # rest)))))"

definition compare_url :: "env \<Rightarrow> json \<Rightarrow> json \<Rightarrow> json \<Rightarrow> ustr" where
  "compare_url w repo sha1 sha2 =
     (str ''https://github.com/'') @ fstr (fmt w) repo @ (str ''/compare/'') @ fstr (fmt w) sha1
       @ (str ''...'') @ fstr (fmt w) sha2"

text \<open>The argument of \<^verbatim>\<open>gh api\<close>.\<close>

definition compare_path :: "env \<Rightarrow> json \<Rightarrow> json \<Rightarrow> json \<Rightarrow> ustr" where
  "compare_path w repo sha1 sha2 =
     (str ''repos/'') @ fstr (fmt w) repo @ (str ''/compare/'') @ fstr (fmt w) sha1
       @ (str ''...'') @ fstr (fmt w) sha2"

definition get_github_commits_between ::
  "env \<Rightarrow> json \<Rightarrow> json \<Rightarrow> json \<Rightarrow> (dict list \<times> ustr) run" where
  "get_github_commits_between w repo sha1 sha2 =
     (let url = compare_url w repo sha1 sha2;
          path = compare_path w repo sha1 sha2
      in and_then (emit (Print (CompareUrl url))) (\<lambda>_.
         and_then (lift (py_slice7 (dict_slice_exn w) sha1)) (\<lambda>short1.
         and_then (lift (py_slice7 (dict_slice_exn w) sha2)) (\<lambda>short2.
         and_then (emit (Print (FetchingCommits short1 short2 repo))) (\<lambda>_.
         and_then (emit (GhApi path)) (\<lambda>_.
         case gh_api w path of
           TimeoutExpired \<Rightarrow> and_then (emit (Print GhTimedOut)) (\<lambda>_. ret ([], url))
         | FileNotFound \<Rightarrow> and_then (emit (Print GhNotFound)) (\<lambda>_. ret ([], url))
         | Completed returncode stdout stderr \<Rightarrow>
             if returncode \<noteq> 0
             then and_then (emit (Print (GhApiError stderr))) (\<lambda>_. ret ([], url))
             else
               (case json_loads w stdout of
                  None \<Rightarrow> and_then (emit (Print GhInvalidJson)) (\<lambda>_. ret ([], url))
                | Some data \<Rightarrow>
                    and_then (lift (py_get data (str ''commits'') (JArr []))) (\<lambda>commits.
                    and_then (lift (py_len commits)) (\<lambda>n.
                    and_then (emit (Print (FoundCommits n))) (\<lambda>_.
                    and_then (lift (py_iter commits)) (\<lambda>cs.
                    and_then (collect_commits (dict_slice_exn w) cs) (\<lambda>commit_list.
                    ret (commit_list, url)))))))))))))"

subsection \<open>\<^verbatim>\<open>analyze_commits\<close>\<close>

definition default_jira_base_url :: ustr where
  "default_jira_base_url = (str ''https://landmarkinfo.atlassian.net/browse/'')"

text \<open>
  The upper-cased matches of one message (\<^verbatim>\<open>pattern.findall\<close> raises \<^verbatim>\<open>TypeError\<close>
  on a message that is not a string), and the loop that fills the set \<open>refs\<close>; a
  commit without the key is skipped.
\<close>

fun find_refs :: "json \<Rightarrow> exn + ustr list" where
  "find_refs (JStr m) = Inr (map upper (findall issue_pattern m))"
| "find_refs _ = Inl TypeError"

definition commit_refs :: "dict \<Rightarrow> exn + ustr list" where
  "commit_refs c = then_ok (dict_getitem c (str ''message'')) find_refs"

fun collect_refs :: "dict list \<Rightarrow> ustr set \<Rightarrow> ustr set run" where
  "collect_refs [] refs = ret refs"
| "collect_refs (c # cs) refs =
     (case commit_refs c of
        Inl e \<Rightarrow>
          (if e = KeyError
           then and_then (emit (Print SkippingMissingMessage)) (\<lambda>_. collect_refs cs refs)
           else raise e)
      | Inr found \<Rightarrow> collect_refs cs (refs \<union> set found))"

text \<open>For the statements below: the keys that one commit adds to \<open>refs\<close>.\<close>

definition found_in :: "dict \<Rightarrow> ustr set" where
  "found_in c = (case commit_refs c of Inr found \<Rightarrow> set found | Inl e \<Rightarrow> {})"

fun emit_all :: "event list \<Rightarrow> unit run" where
  "emit_all evs = (evs, Inr ())"

definition analyze_commits :: "dict list \<Rightarrow> ustr \<Rightarrow> ustr list run" where
  "analyze_commits commit_list jira_base_url =
     and_then (collect_refs commit_list {}) (\<lambda>refs.
     let refs_list = sorted_list_of_set refs
     in and_then (emit (Print ReferencesHeader)) (\<lambda>_.
        and_then (if refs_list \<noteq> []
                  then emit_all (map (\<lambda>ref. Print (ReferenceLine ref (jira_base_url @ ref)))
                                     refs_list)
                  else emit (Print NoneFound)) (\<lambda>_.
        ret (map (\<lambda>ref. jira_base_url @ ref) refs_list))))"

subsection \<open>\<^verbatim>\<open>export_to_markdown\<close>\<close>

text \<open>The replacement function of \<^verbatim>\<open>pr_pattern.sub\<close>; group 1 of a match is the
  match without its leading \<^verbatim>\<open>#\<close>.\<close>

definition pr_link :: "ustr \<Rightarrow> ustr \<Rightarrow> ustr" where
  "pr_link repo m =
     (str ''[#'') @ tl m @ (str ''](https://github.com/'') @ repo @ (str ''/pull/'') @ tl m @ (str '')'')"

text \<open>The line written for one commit, or the first exception of the loop body.\<close>

definition commit_line :: "env \<Rightarrow> json \<Rightarrow> dict \<Rightarrow> exn + ustr" where
  "commit_line w repo c =
     then_ok (dict_getitem c (str ''sha'')) (\<lambda>sha.
     let sha_link = (str ''https://github.com/'') @ fstr (fmt w) repo @ (str ''/commit/'')
                      @ fstr (fmt w) sha
     in
     then_ok (dict_getitem c (str ''message'')) (\<lambda>message.
     then_ok (split_first message) (\<lambda>msg_summary.
     let msg_summary_with_pr =
           sub_from pr_pattern (pr_link (fstr (fmt w) repo)) None msg_summary
     in
     then_ok (dict_getitem c (str ''author'')) (\<lambda>author.
     then_ok (dict_getitem c (str ''date'')) (\<lambda>date.
     Inr ((str ''- ['') @ fstr (fmt w) sha @ (str '']('') @ sha_link @ (str '') | '')
            @ fstr (fmt w) author @ (str '' | '') @ fstr (fmt w) date @ (str '' | '')
            @ msg_summary_with_pr @ [newline]))))))"

fun write_commits :: "env \<Rightarrow> json \<Rightarrow> dict list \<Rightarrow> unit run" where
  "write_commits w repo [] = ret ()"
| "write_commits w repo (c # cs) =
     (case commit_line w repo c of
        Inl e \<Rightarrow>
          (if e = KeyError
           then and_then (emit (Print SkippingMissingField)) (\<lambda>_. write_commits w repo cs)
           else raise e)
      | Inr line \<Rightarrow> and_then (emit (FileWrite line)) (\<lambda>_. write_commits w repo cs))"

definition export_to_markdown ::
  "env \<Rightarrow> dict list \<Rightarrow> ustr list \<Rightarrow> json \<Rightarrow> ustr \<Rightarrow> ustr \<Rightarrow> unit run" where
  "export_to_markdown w commit_list refs_links repo url output_file =
     and_then (emit (FileOpen output_file)) (\<lambda>_.
     if open_fails w output_file
     then emit (Print (ErrorWritingFile output_file))
     else
       (let timestamp = now w
        in and_then (emit (FileWrite ((str ''# Commit Report - '') @ timestamp
                                        @ [newline, newline]))) (\<lambda>_.
           and_then (emit (FileWrite ((str ''**GitHub Compare URL:** ['') @ url @ (str '']('') @ url
                                        @ (str '')'') @ [newline, newline]))) (\<lambda>_.
           and_then (emit (FileWrite ((str ''## GitHub Commits'') @ [newline, newline]))) (\<lambda>_.
           and_then (if commit_list \<noteq> []
                     then write_commits w repo commit_list
                     else emit (FileWrite ((str ''No commits found.'') @ [newline]))) (\<lambda>_.
           and_then (emit (FileWrite ([newline] @ (str ''## Ticket References'')
                                        @ [newline, newline]))) (\<lambda>_.
           and_then (if refs_links \<noteq> []
                     then emit_all (map (\<lambda>link. FileWrite ((str ''- '') @ link @ [newline]))
                                        refs_links)
                     else emit (FileWrite ((str ''No ticket references found.'')
                                             @ [newline]))) (\<lambda>_.
           and_then (emit (FileWrite ([newline] @ (str ''_Report generated on '') @ timestamp
                                        @ (str ''_'') @ [newline]))) (\<lambda>_.
           emit (Print (MarkdownCreated output_file)))))))))))"

subsection \<open>\<^verbatim>\<open>validate_build_number\<close> and \<^verbatim>\<open>main\<close>\<close>

text \<open>\<^verbatim>\<open>pattern.match\<close> raises \<^verbatim>\<open>TypeError\<close> on anything but a string.\<close>

fun validate_build_number :: "json \<Rightarrow> exn + bool" where
  "validate_build_number (JStr s) = Inr (matches_start build_pattern s)"
| "validate_build_number _ = Inl TypeError"

text \<open>The module-level variables read from the configuration.\<close>

record globals =
  config_file :: ustr
  ORG :: json
  PROJECT :: json
  DEFINITION_ID :: json
  BRANCH :: json
  AZURE_PAT :: json
  GITHUB_REPO :: json
  BUILD_NUMBERS :: json

text \<open>Lines 210 to 218: the two build numbers, from the command line when it has
  exactly four entries, else from \<^verbatim>\<open>BUILD_NUMBERS\<close>.\<close>

definition choose_builds :: "ustr list \<Rightarrow> json \<Rightarrow> (json \<times> json) run" where
  "choose_builds argv build_numbers =
     (if length argv = 4
      then and_then (emit (Print (ComparingFromArgs (argv ! 2) (argv ! 3)))) (\<lambda>_.
           ret (JStr (argv ! 2), JStr (argv ! 3)))
      else
        and_then (lift (py_len build_numbers)) (\<lambda>n.
        if n \<noteq> 2
        then and_then (emit (Print ProvideExactlyTwo)) (\<lambda>_. raise (SystemExit 1))
        else
          and_then (lift (py_iter build_numbers)) (\<lambda>bs.
          case bs of
            [build1, build2] \<Rightarrow>
              and_then (emit (Print (ComparingFromConfig build1 build2))) (\<lambda>_.
              ret (build1, build2))
          | _ \<Rightarrow> raise ValueError)))"

fun warn_formats :: "json list \<Rightarrow> unit run" where
  "warn_formats [] = ret ()"
| "warn_formats (b # bs) =
     and_then (lift (validate_build_number b)) (\<lambda>ok.
     and_then (if \<not> ok then emit (Print (BadBuildNumberFormat b)) else ret ()) (\<lambda>_.
     warn_formats bs))"

text \<open>The loop that fills \<^verbatim>\<open>commit_shas\<close>: a sha is appended when it is truthy.\<close>

fun resolve_builds :: "env \<Rightarrow> globals \<Rightarrow> json list \<Rightarrow> json list run" where
  "resolve_builds w g [] = ret []"
| "resolve_builds w g (b # bs) =
     and_then (get_azure_build_commit w (ORG g) (PROJECT g) (DEFINITION_ID g) (BRANCH g) b
                 (AZURE_PAT g)) (\<lambda>sha.
     and_then (resolve_builds w g bs) (\<lambda>rest.
     ret (if truthy sha then sha # rest else rest)))"

definition main :: "env \<Rightarrow> ustr list \<Rightarrow> globals \<Rightarrow> unit run" where
  "main w argv g =
     and_then (choose_builds argv (BUILD_NUMBERS g)) (\<lambda>(build1, build2).
     and_then (warn_formats [build1, build2]) (\<lambda>_.
     and_then (resolve_builds w g [build1, build2]) (\<lambda>commit_shas.
     if length commit_shas < 2
     then and_then (emit (Print CouldNotGetTwo)) (\<lambda>_. raise (SystemExit 1))
     else
       (case commit_shas of
          [sha1, sha2] \<Rightarrow>
            and_then (get_github_commits_between w (GITHUB_REPO g) sha1 sha2)
              (\<lambda>(commit_list, url).
            if commit_list = []
            then emit (Print NoCommitsFound)
            else
              and_then (analyze_commits commit_list default_jira_base_url) (\<lambda>refs_links.
              let base_name = path_stem w (config_file g);
                  output_file = base_name @ (str ''_'') @ fstr (fmt w) build1 @ (str ''_'')
                                  @ fstr (fmt w) build2 @ (str ''_commit_report.md'')
              in export_to_markdown w commit_list refs_links (GITHUB_REPO g) url
                   output_file))
        | _ \<Rightarrow> raise ValueError))))"

text \<open>The whole script: the module-level code, then \<^verbatim>\<open>main()\<close>.\<close>

definition script :: "env \<Rightarrow> ustr list \<Rightarrow> unit run" where
  "script w argv =
     (if length argv < 2
      then and_then (emit (Print Usage)) (\<lambda>_. raise (SystemExit 1))
      else
        (case load_config w (argv ! 1) of
           None \<Rightarrow> and_then (emit (Print ConfigLoadFailed)) (\<lambda>_. raise (SystemExit 1))
         | Some config \<Rightarrow>
             and_then (lift (py_get config (str ''ORG'') JNull)) (\<lambda>org.
             and_then (lift (py_get config (str ''PROJECT'') JNull)) (\<lambda>project.
             and_then (lift (py_get config (str ''DEFINITION_ID'') JNull)) (\<lambda>definition_id.
             and_then (lift (py_get config (str ''BRANCH'') JNull)) (\<lambda>branch.
             and_then (lift (py_get config (str ''AZURE_PAT'') JNull)) (\<lambda>azure_pat.
             and_then (lift (py_get config (str ''GITHUB_REPO'') JNull)) (\<lambda>github_repo.
             and_then (lift (py_get config (str ''BUILD_NUMBERS'') (JArr []))) (\<lambda>build_numbers.
             main w argv
               \<lparr>config_file = argv ! 1, ORG = org, PROJECT = project,
                DEFINITION_ID = definition_id, BRANCH = branch, AZURE_PAT = azure_pat,
                GITHUB_REPO = github_repo, BUILD_NUMBERS = build_numbers\<rparr>)))))))))"

section \<open>Notions used in the statements\<close>

text \<open>An entry of the build list counts as succeeded when its \<^verbatim>\<open>result\<close> field is the
  string \<^verbatim>\<open>succeeded\<close>; its source revision is its \<^verbatim>\<open>sourceVersion\<close> field, \<^verbatim>\<open>None\<close>
  when the field is missing.\<close>

definition succeeded :: "json \<Rightarrow> bool" where
  "succeeded b = (py_get b (str ''result'') JNull = Inr (JStr (str ''succeeded'')))"

definition source_version :: "json \<Rightarrow> json" where
  "source_version b = (case py_get b (str ''sourceVersion'') JNull of Inr v \<Rightarrow> v | Inl e \<Rightarrow> JNull)"

text \<open>
  A sample world for the concrete runs below: Azure DevOps answers \<open>az bn\<close> to the
  request for build number \<open>bn\<close>, the \<^verbatim>\<open>gh\<close> call ends as \<open>gh\<close>, and its output parses
  to \<open>js\<close>.
\<close>

definition fixture :: "(json \<Rightarrow> http_outcome) \<Rightarrow> proc_outcome \<Rightarrow> json option \<Rightarrow> env" where
  "fixture az gh js =
     \<lparr>load_config = (\<lambda>_. None), http_get = (\<lambda>url d b bn pat. az bn), gh_api = (\<lambda>_. gh),
      json_loads = (\<lambda>_. js), fmt = (\<lambda>_. (str ''?'')), dict_slice_exn = TypeError,
      now = (str ''2024-01-01 00:00:00''), open_fails = (\<lambda>_. False),
      path_stem = (\<lambda>_. (str ''config''))\<rparr>"

text \<open>
  The shape of the comparison endpoint's answer, as far as the fetcher depends on it.
  \<open>lookup_path c [k1, k2]\<close> is \<^verbatim>\<open>c[k1][k2]\<close> when every step is a dict with the key.
  An entry is well formed when it is an object and the fields it has are of the
  endpoint's types: \<^verbatim>\<open>sha\<close> and \<^verbatim>\<open>commit.message\<close> strings, \<^verbatim>\<open>commit\<close> and
  \<^verbatim>\<open>commit.author\<close> objects. Any field may be missing. \<open>record_of\<close> is the commit
  record of an entry: the sha cut to seven characters and the three other fields.
\<close>

definition is_str :: "json \<Rightarrow> bool" where
  "is_str v = (case v of JStr s \<Rightarrow> True | _ \<Rightarrow> False)"

definition is_obj :: "json \<Rightarrow> bool" where
  "is_obj v = (case v of JObj kvs \<Rightarrow> True | _ \<Rightarrow> False)"

fun lookup_path :: "json \<Rightarrow> ustr list \<Rightarrow> json option" where
  "lookup_path v [] = Some v"
| "lookup_path (JObj kvs) (k # ks) =
     (case map_of kvs k of None \<Rightarrow> None | Some v \<Rightarrow> lookup_path v ks)"
| "lookup_path _ (k # ks) = None"

definition has_field :: "json \<Rightarrow> ustr list \<Rightarrow> bool" where
  "has_field c path = (lookup_path c path \<noteq> None)"

definition field :: "json \<Rightarrow> ustr list \<Rightarrow> json" where
  "field c path = (case lookup_path c path of None \<Rightarrow> JNull | Some v \<Rightarrow> v)"

definition field_typed :: "(json \<Rightarrow> bool) \<Rightarrow> json \<Rightarrow> ustr list \<Rightarrow> bool" where
  "field_typed P c path = (case lookup_path c path of None \<Rightarrow> True | Some v \<Rightarrow> P v)"

definition well_formed_entry :: "json \<Rightarrow> bool" where
  "well_formed_entry c =
     (is_obj c \<and> field_typed is_str c [(str ''sha'')] \<and> field_typed is_obj c [(str ''commit'')]
      \<and> field_typed is_str c [(str ''commit''), (str ''message'')]
      \<and> field_typed is_obj c [(str ''commit''), (str ''author'')])"

definition has_all_four :: "json \<Rightarrow> bool" where
  "has_all_four c =
     (has_field c [(str ''sha'')] \<and> has_field c [(str ''commit''), (str ''message'')]
      \<and> has_field c [(str ''commit''), (str ''author''), (str ''name'')]
      \<and> has_field c [(str ''commit''), (str ''author''), (str ''date'')])"

definition record_of :: "json \<Rightarrow> dict" where
  "record_of c =
     [((str ''sha''), case field c [(str ''sha'')] of JStr s \<Rightarrow> JStr (take 7 s) | v \<Rightarrow> v),
      ((str ''message''), field c [(str ''commit''), (str ''message'')]),
      ((str ''author''), field c [(str ''commit''), (str ''author''), (str ''name'')]),
      ((str ''date''), field c [(str ''commit''), (str ''author''), (str ''date'')])]"

text \<open>A commit record with its four keys, a string as message and a sha of at most
  seven elements.\<close>

definition full_record :: "dict \<Rightarrow> bool" where
  "full_record c =
     (\<exists>sha m a d n. c = [((str ''sha''), sha), ((str ''message''), JStr m), ((str ''author''), a), ((str ''date''), d)]
        \<and> py_len sha = Inr n \<and> n \<le> 7)"

text \<open>A sample answer of the comparison endpoint, whose second entry lacks the
  author date, and the records of its two complete entries.\<close>

definition sample_response :: json where
  "sample_response =
     JObj [((str ''commits''), JArr
       [JObj [((str ''sha''), JStr (str ''0123456789abcdef'')),
              ((str ''commit''), JObj [((str ''message''), JStr (str ''Fix ABC-123'')),
                                 ((str ''author''), JObj [((str ''name''), JStr (str ''A'')),
                                                    ((str ''date''), JStr (str ''2024-01-01T00:00:00Z''))])])],
        JObj [((str ''sha''), JStr (str ''89abcdef01234567'')),
              ((str ''commit''), JObj [((str ''message''), JStr (str ''no author date'')),
                                 ((str ''author''), JObj [((str ''name''), JStr (str ''B''))])])],
        JObj [((str ''sha''), JStr (str ''fedcba9876543210'')),
              ((str ''commit''), JObj [((str ''message''), JStr (str ''abc-123 again'')),
                                 ((str ''author''), JObj [((str ''name''), JStr (str ''C'')),
                                                    ((str ''date''), JStr (str ''2024-01-02T00:00:00Z''))])])]])]"

definition sample_records :: "dict list" where
  "sample_records =
     [[((str ''sha''), JStr (str ''0123456'')), ((str ''message''), JStr (str ''Fix ABC-123'')), ((str ''author''), JStr (str ''A'')),
       ((str ''date''), JStr (str ''2024-01-01T00:00:00Z''))],
      [((str ''sha''), JStr (str ''fedcba9'')), ((str ''message''), JStr (str ''abc-123 again'')), ((str ''author''), JStr (str ''C'')),
       ((str ''date''), JStr (str ''2024-01-02T00:00:00Z''))]]"

text \<open>An answer of the comparison endpoint whose second entry has the author
  \<^verbatim>\<open>null\<close>, after a complete first entry.\<close>

definition null_author_response :: json where
  "null_author_response =
     JObj [((str ''commits''), JArr
       [JObj [((str ''sha''), JStr (str ''0123456789abcdef'')),
              ((str ''commit''), JObj [((str ''message''), JStr (str ''Fix ABC-123'')),
                                 ((str ''author''), JObj [((str ''name''), JStr (str ''A'')),
                                                    ((str ''date''), JStr (str ''2024-01-01T00:00:00Z''))])])],
        JObj [((str ''sha''), JStr (str ''89abcdef01234567'')),
              ((str ''commit''), JObj [((str ''message''), JStr (str ''no author'')),
                                 ((str ''author''), JNull)])]])]"

text \<open>
  Kinds of events: a build that resolved (line 79 prints it exactly when the
  resolver returns a sha), a request to Azure DevOps, the call of the \<^verbatim>\<open>gh\<close> tool, the
  report file being opened or written, and the prints of \<^verbatim>\<open>analyze_commits\<close>. An
  event is calm when it is of none of these kinds.
\<close>

fun is_resolved :: "event \<Rightarrow> bool" where
  "is_resolved (Print (BuildCommit b sha)) = True"
| "is_resolved _ = False"

fun is_request :: "event \<Rightarrow> bool" where
  "is_request (HttpGet url b) = True"
| "is_request _ = False"

fun is_fetch :: "event \<Rightarrow> bool" where
  "is_fetch (GhApi path) = True"
| "is_fetch _ = False"

fun is_write :: "event \<Rightarrow> bool" where
  "is_write (FileOpen name) = True"
| "is_write (FileWrite text) = True"
| "is_write _ = False"

fun is_extract :: "event \<Rightarrow> bool" where
  "is_extract (Print SkippingMissingMessage) = True"
| "is_extract (Print ReferencesHeader) = True"
| "is_extract (Print (ReferenceLine ref link)) = True"
| "is_extract (Print NoneFound) = True"
| "is_extract _ = False"

definition calm :: "event \<Rightarrow> bool" where
  "calm e = (\<not> is_resolved e \<and> \<not> is_request e \<and> \<not> is_fetch e \<and> \<not> is_write e
             \<and> \<not> is_extract e)"

text \<open>The part of \<open>main\<close> after the resolution loop, named for the proofs.\<close>

definition after_resolve :: "env \<Rightarrow> globals \<Rightarrow> json \<Rightarrow> json \<Rightarrow> json list \<Rightarrow> unit run" where
  "after_resolve w g build1 build2 commit_shas =
     (if length commit_shas < 2
      then and_then (emit (Print CouldNotGetTwo)) (\<lambda>_. raise (SystemExit 1))
      else
       (case commit_shas of
          [sha1, sha2] \<Rightarrow>
            and_then (get_github_commits_between w (GITHUB_REPO g) sha1 sha2)
              (\<lambda>(commit_list, url).
            if commit_list = []
            then emit (Print NoCommitsFound)
            else
              and_then (analyze_commits commit_list default_jira_base_url) (\<lambda>refs_links.
              let base_name = path_stem w (config_file g);
                  output_file = base_name @ (str ''_'') @ fstr (fmt w) build1 @ (str ''_'')
                                  @ fstr (fmt w) build2 @ (str ''_commit_report.md'')
              in export_to_markdown w commit_list refs_links (GITHUB_REPO g) url
                   output_file))
        | _ \<Rightarrow> raise ValueError))"

text \<open>Sample module-level variables and a sample answer of the build-list query.\<close>

definition sample_globals :: "json \<Rightarrow> globals" where
  "sample_globals bn =
     \<lparr>config_file = (str ''config.json''), ORG = JStr (str ''org''), PROJECT = JStr (str ''proj''),
      DEFINITION_ID = JInt 7, BRANCH = JStr (str ''main''), AZURE_PAT = JStr (str ''pat''),
      GITHUB_REPO = JStr (str ''org/repo''), BUILD_NUMBERS = bn\<rparr>"

definition sample_build :: http_outcome where
  "sample_build =
     Response (Some (JObj
       [((str ''count''), JInt 1),
        ((str ''value''), JArr [JObj [((str ''result''), JStr (str ''succeeded'')),
                                ((str ''sourceVersion''), JStr (str ''0123456789abcdef''))]])]))"

text \<open>
  The character before position \<open>i\<close> of a text that follows \<open>p\<close>, and the scan that
  tries the pattern at every position of the text, for the statement that
  \<^verbatim>\<open>findall\<close> misses no match of the issue-key pattern.
\<close>

definition prev_char :: "nat option \<Rightarrow> ustr \<Rightarrow> nat \<Rightarrow> nat option" where
  "prev_char p s i = (if i = 0 then p else Some (s ! (i - 1)))"

fun all_matches :: "atom list \<Rightarrow> nat option \<Rightarrow> ustr \<Rightarrow> ustr list" where
  "all_matches r p [] = []"
| "all_matches r p (c # cs) =
     (case match_here r p (c # cs) of Some n \<Rightarrow> [take n (c # cs)] | None \<Rightarrow> [])
     @ all_matches r (Some c) cs"

section \<open>Traces and results of composed steps\<close>

lemma snd_and_then:
  "snd (and_then m f) = (case snd m of Inl e \<Rightarrow> Inl e | Inr x \<Rightarrow> snd (f x))"
  by (cases m) (auto simp: and_then_def split: sum.splits prod.splits)

lemma fst_and_then:
  "fst (and_then m f) = (case snd m of Inl e \<Rightarrow> fst m | Inr x \<Rightarrow> fst m @ fst (f x))"
  by (cases m) (auto simp: and_then_def split: sum.splits prod.splits)

lemma run_simps:
  "snd (ret x) = Inr x" "fst (ret x) = []"
  "snd (raise e) = Inl e" "fst (raise e) = []"
  "snd (emit ev) = Inr ()" "fst (emit ev) = [ev]"
  "snd (lift r) = r" "fst (lift r) = []"
  by (simp_all add: ret_def raise_def emit_def lift_def)

lemma snd_lift_then:
  "snd (and_then (lift r) f) = (case r of Inl e \<Rightarrow> Inl e | Inr x \<Rightarrow> snd (f x))"
  by (simp add: snd_and_then run_simps)

lemma snd_emit_then: "snd (and_then (emit ev) f) = snd (f ())"
  by (simp add: snd_and_then run_simps)

lemma fst_lift_then:
  "fst (and_then (lift r) f) = (case r of Inl e \<Rightarrow> [] | Inr x \<Rightarrow> fst (f x))"
  by (simp add: fst_and_then run_simps split: sum.splits)

lemma fst_emit_then: "fst (and_then (emit ev) f) = ev # fst (f ())"
  by (simp add: fst_and_then run_simps)

lemma and_then_Inl: "snd m = Inl e \<Longrightarrow> and_then m f = (fst m, Inl e)"
  by (cases m) (simp add: and_then_def)

lemma and_then_Inr: "snd m = Inr x \<Longrightarrow> and_then m f = (fst m @ fst (f x), snd (f x))"
  by (cases m; cases "f x") (simp add: and_then_def)

lemmas run_defs = and_then_def emit_def ret_def raise_def lift_def

section \<open>Evaluating the patterns on ASCII text\<close>

lemma in_ranges_Cons:
  "in_ranges ((lo, hi) # rs) c = (lo \<le> c \<and> c \<le> hi \<or> in_ranges rs c)"
  by (simp add: in_ranges_def)

lemma in_ranges_Nil: "in_ranges [] c = False"
  by (simp add: in_ranges_def)

lemma is_digit_ascii: "c < 128 \<Longrightarrow> is_digit c = (48 \<le> c \<and> c \<le> 57)"
  unfolding is_digit_def digit_ranges_def by (simp add: in_ranges_Cons in_ranges_Nil)

lemma is_letter_ascii:
  "c < 128 \<Longrightarrow> is_letter c = (65 \<le> c \<and> c \<le> 90 \<or> 97 \<le> c \<and> c \<le> 122)"
  by (auto simp: is_letter_def cp_def)

lemma in_word_ranges_ascii:
  "c < 128 \<Longrightarrow> in_ranges word_ranges c =
     (48 \<le> c \<and> c \<le> 57 \<or> 65 \<le> c \<and> c \<le> 90 \<or> c = 95 \<or> 97 \<le> c \<and> c \<le> 122)"
  unfolding word_ranges_def by (auto simp: in_ranges_Cons in_ranges_Nil)

lemma is_word_ascii:
  "c < 128 \<Longrightarrow> is_word c =
     (48 \<le> c \<and> c \<le> 57 \<or> 65 \<le> c \<and> c \<le> 90 \<or> c = 95 \<or> 97 \<le> c \<and> c \<le> 122)"
  by (auto simp: is_word_def is_digit_ascii is_letter_ascii in_word_ranges_ascii)

lemmas evals = str_def cp_def is_digit_ascii is_letter_ascii is_word_ascii issue_pattern_def
  pr_pattern_def build_pattern_def lit_def at_boundary_def word_before_def word_next_def
  at_end_def findall_def matches_start_def upper_def upper_char_def first_line_def

section \<open>The issue-key pattern\<close>

text \<open>
  A greedy repetition whose continuation cannot start inside the class takes the
  whole run of class characters, or fails: backtracking into the run never helps.
\<close>

lemma map_option_add0: "map_option ((+) (0::nat)) x = x"
  by (cases x) auto

lemma rep_exact:
  assumes K: "\<And>d c cs. cls d \<Longrightarrow> cls c \<Longrightarrow> match_here r (Some d) (c # cs) = None"
  shows "0 < lo \<or> (\<exists>d. p = Some d \<and> cls d) \<Longrightarrow>
     match_here (Rep cls lo (Some hi) # r) p s =
       (let k = length (takeWhile cls s) in
        if lo \<le> k \<and> k \<le> hi
        then map_option (\<lambda>n. k + n)
               (match_here r (if k = 0 then p else Some (s ! (k - 1))) (drop k s))
        else None)"
proof (induction s arbitrary: lo hi p)
  case Nil
  then show ?case by (auto simp: map_option_add0)
next
  case (Cons c cs)
  show ?case
  proof (cases "cls c")
    case False
    then show ?thesis by (auto simp: map_option_add0)
  next
    case True
    note c = True
    show ?thesis
    proof (cases hi)
      case 0
      with c Cons.prems K show ?thesis by auto
    next
      case (Suc h)
      have IH: "match_here (Rep cls (lo - 1) (Some h) # r) (Some c) cs =
        (let k = length (takeWhile cls cs) in
        if lo - 1 \<le> k \<and> k \<le> h
        then map_option (\<lambda>n. k + n)
               (match_here r (if k = 0 then Some c else Some (cs ! (k - 1))) (drop k cs))
        else None)"
        by (rule Cons.IH) (use c in auto)
      show ?thesis
      proof (cases "match_here (Rep cls (lo - 1) (Some h) # r) (Some c) cs")
        case None
        have fb: "lo = 0 \<Longrightarrow> match_here r p (c # cs) = None"
          using Cons.prems K c by auto
        from None IH c Suc fb show ?thesis
          by (auto simp: Let_def nth_Cons split: if_splits nat.splits)
      next
        case (Some n)
        with IH c Suc show ?thesis
          by (auto simp: Let_def nth_Cons split: if_splits nat.splits)
      qed
    qed
  qed
qed


lemma is_digit_word: "is_digit c \<Longrightarrow> is_word c"
  by (simp add: is_word_def)

lemma is_letter_word: "is_letter c \<Longrightarrow> is_word c"
  by (simp add: is_word_def)

lemma is_letter_not_hyphen: "is_letter c \<Longrightarrow> c \<noteq> (cp CHR ''-'')"
  by (auto simp: is_letter_def cp_def)

lemma nth_takeWhile_holds: "i < length (takeWhile P xs) \<Longrightarrow> P (xs ! i)"
  by (metis nth_mem set_takeWhileD takeWhile_nth)

lemma rep_zero: "match_here (Rep cls 0 (Some 0) # r) p s = match_here r p s"
  by (cases s) auto

lemma match_lit:
  "match_here (lit x # r) p s =
     (case s of [] \<Rightarrow> None
      | c # cs \<Rightarrow> if c = x then map_option Suc (match_here r (Some c) cs) else None)"
  by (cases s; cases "match_here r (Some (hd s)) (tl s)") (auto simp: lit_def rep_zero)

lemma match_digits_bnd:
  "match_here [Rep is_digit 2 (Some 6), Bnd] p s =
     (let k = length (takeWhile is_digit s) in
      if 2 \<le> k \<and> k \<le> 6 \<and> \<not> word_next (dropWhile is_digit s) then Some k else None)"
proof -
  have K: "\<And>d c cs. is_digit d \<Longrightarrow> is_digit c \<Longrightarrow> match_here [Bnd] (Some d) (c # cs) = None"
    by (simp add: at_boundary_def word_before_def word_next_def is_digit_word)
  have "match_here (Rep is_digit 2 (Some 6) # [Bnd]) p s =
       (let k = length (takeWhile is_digit s) in
        if 2 \<le> k \<and> k \<le> 6
        then map_option (\<lambda>n. k + n)
               (match_here [Bnd] (if k = 0 then p else Some (s ! (k - 1))) (drop k s))
        else None)"
    by (rule rep_exact[OF K]) auto
  moreover have "2 \<le> length (takeWhile is_digit s) \<Longrightarrow>
      word_before (Some (s ! (length (takeWhile is_digit s) - 1)))"
    by (simp add: word_before_def is_digit_word nth_takeWhile_holds)
  ultimately show ?thesis
    by (auto simp: Let_def at_boundary_def dropWhile_eq_drop)
qed

lemma match_letters:
  "match_here (Rep is_letter 3 (Some 5) # lit (cp CHR ''-'') # r) p s =
     (let k = length (takeWhile is_letter s) in
      if 3 \<le> k \<and> k \<le> 5
      then map_option (\<lambda>n. k + n)
             (match_here (lit (cp CHR ''-'') # r) (Some (s ! (k - 1))) (dropWhile is_letter s))
      else None)"
proof -
  have K: "\<And>d c cs. is_letter d \<Longrightarrow> is_letter c \<Longrightarrow>
      match_here (lit (cp CHR ''-'') # r) (Some d) (c # cs) = None"
    by (simp add: match_lit is_letter_not_hyphen)
  have "match_here (Rep is_letter 3 (Some 5) # lit (cp CHR ''-'') # r) p s =
       (let k = length (takeWhile is_letter s) in
        if 3 \<le> k \<and> k \<le> 5
        then map_option (\<lambda>n. k + n)
               (match_here (lit (cp CHR ''-'') # r) (if k = 0 then p else Some (s ! (k - 1))) (drop k s))
        else None)"
    by (rule rep_exact[OF K]) auto
  then show ?thesis
    by (auto simp: Let_def dropWhile_eq_drop)
qed

lemma issue_pattern_eq:
  "match_here issue_pattern p s =
     (let ls = takeWhile is_letter s; r1 = dropWhile is_letter s;
          ds = takeWhile is_digit (tl r1); r2 = dropWhile is_digit (tl r1)
      in if \<not> word_before p \<and> 3 \<le> length ls \<and> length ls \<le> 5 \<and> r1 \<noteq> []
            \<and> hd r1 = (cp CHR ''-'') \<and> 2 \<le> length ds \<and> length ds \<le> 6 \<and> \<not> word_next r2
         then Some (length ls + 1 + length ds) else None)"
proof -
  have b: "3 \<le> length (takeWhile is_letter s) \<Longrightarrow> word_next s"
    by (cases s) (auto simp: word_next_def is_letter_word split: if_splits)
  show ?thesis
    unfolding issue_pattern_def match_here.simps(2) match_letters match_lit match_digits_bnd
    using b
    by (auto simp: Let_def at_boundary_def simp del: dropWhile_eq_Nil_conv split: list.splits)
qed


lemma not_word_next_digits: "\<not> word_next rest \<Longrightarrow> takeWhile is_digit rest = []"
  by (cases rest) (auto simp: word_next_def is_digit_word)

lemma issue_key_iff_aux: "match_here issue_pattern p s = Some n \<longleftrightarrow> issue_key_at p s n"
proof
  assume m: "match_here issue_pattern p s = Some n"
  define ls where "ls = takeWhile is_letter s"
  define r1 where "r1 = dropWhile is_letter s"
  define ds where "ds = takeWhile is_digit (tl r1)"
  define rest where "rest = dropWhile is_digit (tl r1)"
  from m have c: "\<not> word_before p" "3 \<le> length ls" "length ls \<le> 5" "r1 \<noteq> []"
      "hd r1 = (cp CHR ''-'')" "2 \<le> length ds" "length ds \<le> 6" "\<not> word_next rest"
      "n = length ls + 1 + length ds"
    unfolding issue_pattern_eq ls_def r1_def ds_def rest_def
    by (auto simp: Let_def simp del: dropWhile_eq_Nil_conv split: if_splits)
  have "s = ls @ r1" by (simp add: ls_def r1_def)
  moreover have "r1 = (cp CHR ''-'') # tl r1" using c(4,5) by (cases r1) auto
  moreover have "tl r1 = ds @ rest" by (simp add: ds_def rest_def)
  ultimately have s: "s = ls @ cp CHR ''-'' # ds @ rest" by simp
  have "list_all is_letter ls" "list_all is_digit ds"
    by (auto simp: list_all_iff ls_def ds_def dest: set_takeWhileD)
  with s c show "issue_key_at p s n"
    unfolding issue_key_at_def by blast
next
  assume "issue_key_at p s n"
  then obtain ls ds rest where s: "s = ls @ cp CHR ''-'' # ds @ rest"
    and n: "n = length ls + 1 + length ds"
    and l: "3 \<le> length ls" "length ls \<le> 5" "list_all is_letter ls"
    and d: "2 \<le> length ds" "length ds \<le> 6" "list_all is_digit ds"
    and b: "\<not> word_before p" "\<not> word_next rest"
    unfolding issue_key_at_def by blast
  have nl: "\<not> is_letter (cp CHR ''-'')" by (simp add: is_letter_def cp_def)
  have t1: "takeWhile is_letter s = ls"
    and d1: "dropWhile is_letter s = cp CHR ''-'' # ds @ rest"
    using l(3) nl by (auto simp: s list_all_iff takeWhile_append2 dropWhile_append2)
  have t2: "takeWhile is_digit (ds @ rest) = ds" and d2: "dropWhile is_digit (ds @ rest) = rest"
    using d(3) not_word_next_digits[OF b(2)]
    by (auto simp: list_all_iff takeWhile_append2 dropWhile_append2 dropWhile_eq_self_iff
        simp flip: takeWhile_eq_Nil_iff)
  show "match_here issue_pattern p s = Some n"
    unfolding issue_pattern_eq
    using l d b n by (simp add: t1 d1 t2 d2 Let_def)
qed

text \<open>On the ASCII characters the classes of the pattern are the letters and the
  digits of the specification; every character of a token so described is ASCII.\<close>

lemma ascii_letter_is_letter: "ascii_letter c \<Longrightarrow> is_letter c"
  by (auto simp: ascii_letter_def is_letter_def)

lemma ascii_digit_is_digit: "ascii_digit c \<Longrightarrow> is_digit c"
  by (simp add: ascii_digit_def cp_def is_digit_def digit_ranges_def in_ranges_Cons)

lemma is_letter_ascii_letter: "c < 128 \<Longrightarrow> is_letter c = ascii_letter c"
  by (auto simp: ascii_letter_def is_letter_def)

lemma is_digit_ascii_digit: "c < 128 \<Longrightarrow> is_digit c = ascii_digit c"
  by (simp add: is_digit_ascii ascii_digit_def cp_def)

lemma spec_issue_key_is_key: "spec_issue_key_at p s n \<Longrightarrow> issue_key_at p s n"
  unfolding spec_issue_key_at_def issue_key_at_def list_all_iff
  by (blast intro: ascii_letter_is_letter ascii_digit_is_digit)

lemma spec_issue_key_chars:
  assumes "spec_issue_key_at p s n"
  shows "\<forall>c\<in>set (take n s). c < 128"
proof -
  from assms obtain ls ds rest where s: "s = ls @ cp CHR ''-'' # ds @ rest"
    and n: "n = length ls + 1 + length ds"
    and l: "list_all ascii_letter ls" and d: "list_all ascii_digit ds"
    unfolding spec_issue_key_at_def by blast
  have "take n s = ls @ cp CHR ''-'' # ds" by (simp add: s n)
  moreover have "\<forall>c\<in>set ls. c < 128"
    using l by (auto simp: list_all_iff ascii_letter_def cp_def)
  moreover have "\<forall>c\<in>set ds. c < 128"
    using d by (auto simp: list_all_iff ascii_digit_def cp_def)
  ultimately show ?thesis by (auto simp: cp_def)
qed

lemma issue_key_ascii:
  assumes a: "\<forall>c\<in>set s. c < 128"
  shows "issue_key_at p s n \<longleftrightarrow> spec_issue_key_at p s n"
proof
  assume "issue_key_at p s n"
  then obtain ls ds rest where s: "s = ls @ cp CHR ''-'' # ds @ rest"
    and r: "n = length ls + 1 + length ds" "3 \<le> length ls" "length ls \<le> 5"
      "2 \<le> length ds" "length ds \<le> 6" "\<not> word_before p" "\<not> word_next rest"
    and l: "list_all is_letter ls" and d: "list_all is_digit ds"
    unfolding issue_key_at_def by blast
  from a s l have "list_all ascii_letter ls"
    by (auto simp: list_all_iff is_letter_ascii_letter)
  moreover from a s d have "list_all ascii_digit ds"
    by (auto simp: list_all_iff is_digit_ascii_digit)
  ultimately show "spec_issue_key_at p s n"
    unfolding spec_issue_key_at_def using s r by blast
qed (rule spec_issue_key_is_key)

text \<open>
  C3, as stated, does not hold: the pattern is compiled for \<^verbatim>\<open>str\<close> with
  \<^verbatim>\<open>re.IGNORECASE\<close>, so its letter class also has the long s U+017F (with U+0130,
  U+0131 and U+212A), and \<^verbatim>\<open>\d\<close> is any decimal digit of Unicode. The text of three long
  s, a hyphen and \<^verbatim>\<open>12\<close> is matched, and so is \<^verbatim>\<open>ABC-12\<close> followed by the Arabic-Indic
  digit three U+0663, as a whole; neither is a token of 3 to 5 letters a to z, a hyphen
  and 2 to 6 digits 0 to 9. Nor is the class all alphabetic characters: three
  \<^verbatim>\<open>e\<close> with acute accent U+00E9 (a word character that is no digit), a hyphen and
  \<^verbatim>\<open>12\<close> yield no match.
\<close>

theorem issue_pattern_beyond_ascii:
  "findall issue_pattern ([0x17F, 0x17F, 0x17F] @ str ''-12'') = [[0x17F, 0x17F, 0x17F] @ str ''-12'']
   \<and> match_here issue_pattern None ([0x17F, 0x17F, 0x17F] @ str ''-12'') = Some 6
   \<and> \<not> spec_issue_key_at None ([0x17F, 0x17F, 0x17F] @ str ''-12'') 6
   \<and> findall issue_pattern (str ''ABC-12'' @ [0x663]) = [str ''ABC-12'' @ [0x663]]
   \<and> match_here issue_pattern None (str ''ABC-12'' @ [0x663]) = Some 7
   \<and> \<not> spec_issue_key_at None (str ''ABC-12'' @ [0x663]) 7
   \<and> findall issue_pattern ([0xE9, 0xE9, 0xE9] @ str ''-12'') = []
   \<and> is_word 0xE9 \<and> \<not> is_digit 0xE9"
proof -
  have d: "is_digit 0x663" "\<not> is_digit 0x17F" "\<not> is_digit 0xE9"
    by (simp_all add: is_digit_def digit_ranges_def in_ranges_Cons in_ranges_Nil)
  have l: "is_letter 0x17F" "\<not> is_letter 0x663" "\<not> is_letter 0xE9"
    by (simp_all add: is_letter_def cp_def)
  have w: "is_word 0x663" "is_word 0x17F" "is_word 0xE9"
    by (simp_all add: is_word_def d l word_ranges_def in_ranges_Cons in_ranges_Nil)
  have 1: "findall issue_pattern ([0x17F, 0x17F, 0x17F] @ str ''-12'')
      = [[0x17F, 0x17F, 0x17F] @ str ''-12'']"
    by (simp add: evals d l w)
  have 2: "match_here issue_pattern None ([0x17F, 0x17F, 0x17F] @ str ''-12'') = Some 6"
    by (simp add: evals d l w)
  have 3: "\<not> spec_issue_key_at None ([0x17F, 0x17F, 0x17F] @ str ''-12'') 6"
    by (auto dest!: spec_issue_key_chars)
  have 4: "findall issue_pattern (str ''ABC-12'' @ [0x663]) = [str ''ABC-12'' @ [0x663]]"
    by (simp add: evals d l w)
  have 5: "match_here issue_pattern None (str ''ABC-12'' @ [0x663]) = Some 7"
    by (simp add: evals d l w)
  have 6: "\<not> spec_issue_key_at None (str ''ABC-12'' @ [0x663]) 7"
    by (auto dest!: spec_issue_key_chars)
  have 7: "findall issue_pattern ([0xE9, 0xE9, 0xE9] @ str ''-12'') = []"
    by (simp add: evals d l w)
  from 1 2 3 4 5 6 7 w(3) d(3) show ?thesis by blast
qed

text \<open>
  C3, amended. The issue-key pattern matches at a position exactly when a token of 3
  to 5 characters of its letter class (a to z in either case, and U+0130, U+0131,
  U+017F, U+212A), a hyphen and 2 to 6 decimal digits of any script starts there, with
  no word character on either side; the match is that token. In ASCII text this is
  the token of the specification: 3 to 5 letters a to z in either case, a hyphen and
  2 to 6 digits 0 to 9. On the boundary examples of the specification, \<^verbatim>\<open>ABCDE-12\<close>
  (and the lower-case \<^verbatim>\<open>abc-123\<close>) is found, and \<^verbatim>\<open>AB-12\<close>, \<^verbatim>\<open>ABCDEF-12\<close>, \<^verbatim>\<open>ABC-1\<close> and
  \<^verbatim>\<open>ABC-1234567\<close> yield no match.
\<close>

theorem issue_pattern_exact:
  "(match_here issue_pattern p s = Some n \<longleftrightarrow> issue_key_at p s n)
   \<and> ((\<forall>c\<in>set s. c < 128) \<longrightarrow>
        (match_here issue_pattern p s = Some n \<longleftrightarrow> spec_issue_key_at p s n))
   \<and> findall issue_pattern (str ''ABCDE-12'') = [(str ''ABCDE-12'')]
   \<and> findall issue_pattern (str ''abc-123'') = [(str ''abc-123'')]
   \<and> findall issue_pattern (str ''AB-12'') = []
   \<and> findall issue_pattern (str ''ABCDEF-12'') = []
   \<and> findall issue_pattern (str ''ABC-1'') = []
   \<and> findall issue_pattern (str ''ABC-1234567'') = []"
proof -
  have "findall issue_pattern (str ''ABCDE-12'') = [(str ''ABCDE-12'')]" by (simp add: evals)
  moreover have "findall issue_pattern (str ''abc-123'') = [(str ''abc-123'')]" by (simp add: evals)
  moreover have "findall issue_pattern (str ''AB-12'') = []" by (simp add: evals)
  moreover have "findall issue_pattern (str ''ABCDEF-12'') = []" by (simp add: evals)
  moreover have "findall issue_pattern (str ''ABC-1'') = []" by (simp add: evals)
  moreover have "findall issue_pattern (str ''ABC-1234567'') = []" by (simp add: evals)
  ultimately show ?thesis using issue_key_iff_aux issue_key_ascii by blast
qed

theorem issue_pattern_exact_witness:
  "issue_key_at None (str ''ABCDE-12'') 8 \<and> spec_issue_key_at None (str ''ABCDE-12'') 8
   \<and> \<not> issue_key_at None (str ''ABCDEF-12'') 9
   \<and> \<not> spec_issue_key_at (Some (cp CHR ''x'')) (str ''ABC-12'') 6"
proof -
  have "match_here issue_pattern None (str ''ABCDE-12'') = Some 8" by (simp add: evals)
  moreover have "match_here issue_pattern None (str ''ABCDEF-12'') \<noteq> Some 9" by (simp add: evals)
  moreover have "match_here issue_pattern (Some (cp CHR ''x'')) (str ''ABC-12'') \<noteq> Some 6"
    by (simp add: evals)
  moreover have "\<forall>c\<in>set (str ''ABCDE-12''). c < 128" "\<forall>c\<in>set (str ''ABC-12''). c < 128"
    by (simp_all add: str_def cp_def)
  ultimately show ?thesis
    using issue_pattern_exact[of None "(str ''ABCDE-12'')" 8]
      issue_pattern_exact[of None "(str ''ABCDEF-12'')" 9]
      issue_pattern_exact[of "Some (cp CHR ''x'')" "(str ''ABC-12'')" 6]
    by blast
qed

section \<open>Reference extraction\<close>

lemma commit_refs_cases:
  "commit_refs c = Inl e \<Longrightarrow> e = KeyError \<or> e = TypeError"
  by (cases "map_of c (str ''message'')"; cases "the (map_of c (str ''message''))")
     (auto simp: commit_refs_def then_ok_def dict_getitem_def)

lemma snd_collect_refs:
  "snd (collect_refs cs refs) =
     (if \<exists>c\<in>set cs. commit_refs c = Inl TypeError then Inl TypeError
      else Inr (refs \<union> (\<Union>c\<in>set cs. found_in c)))"
proof (induction cs arbitrary: refs)
  case Nil
  then show ?case by (simp add: run_simps)
next
  case (Cons c cs)
  show ?case
  proof (cases "commit_refs c")
    case (Inl e)
    with commit_refs_cases have "e = KeyError \<or> e = TypeError" by blast
    with Inl Cons.IH show ?thesis
      by (auto simp: snd_and_then run_simps found_in_def)
  next
    case (Inr found)
    with Cons.IH show ?thesis
      by (auto simp: found_in_def)
  qed
qed

lemma snd_analyze_commits:
  "snd (analyze_commits cs base) =
     (if \<exists>c\<in>set cs. commit_refs c = Inl TypeError then Inl TypeError
      else Inr (map (\<lambda>ref. base @ ref) (sorted_list_of_set (\<Union>c\<in>set cs. found_in c))))"
  by (simp add: analyze_commits_def snd_and_then snd_collect_refs run_simps Let_def)


lemma finite_found_in: "finite (\<Union>c\<in>set cs. found_in c)"
  by (auto simp: found_in_def split: sum.splits)

lemma found_in_str:
  "found_in c =
     (case map_of c (str ''message'') of
        Some (JStr s) \<Rightarrow> upper ` set (findall issue_pattern s)
      | _ \<Rightarrow> {})"
  by (cases "map_of c (str ''message'')"; cases "the (map_of c (str ''message''))")
     (auto simp: found_in_def commit_refs_def then_ok_def dict_getitem_def)

lemma commit_refs_TypeError:
  "commit_refs c = Inl TypeError \<longleftrightarrow>
     (\<exists>v. map_of c (str ''message'') = Some v \<and> (\<forall>m. v \<noteq> JStr m))"
  by (cases "map_of c (str ''message'')"; cases "the (map_of c (str ''message''))")
     (auto simp: commit_refs_def then_ok_def dict_getitem_def)

lemma inj_prefix: "inj ((@) (base :: ustr))"
  by (simp add: inj_on_def)

text \<open>
  Two matches of the issue-key pattern never overlap: inside a match the pattern
  matches nowhere. So \<^verbatim>\<open>findall\<close>, which resumes after each match, finds the match at
  every position where there is one.
\<close>

lemma is_digit_not_letter: "is_digit c \<Longrightarrow> \<not> is_letter c"
  unfolding is_digit_def digit_ranges_def is_letter_def cp_def
  by (auto simp: in_ranges_Cons in_ranges_Nil)

lemma prev_char_Suc: "prev_char p (c # cs) (Suc j) = prev_char (Some c) cs j"
  by (cases j) (simp_all add: prev_char_def)

lemma all_matches_none_prefix:
  "k \<le> length s \<Longrightarrow> \<forall>j<k. match_here r (prev_char p s j) (drop j s) = None \<Longrightarrow>
     all_matches r p s = all_matches r (prev_char p s k) (drop k s)"
proof (induction s arbitrary: p k)
  case Nil
  then show ?case by (simp add: prev_char_def)
next
  case (Cons c cs)
  show ?case
  proof (cases k)
    case 0
    then show ?thesis by (simp add: prev_char_def)
  next
    case (Suc k')
    from Cons.prems(2) Suc have "match_here r (prev_char p (c # cs) 0) (drop 0 (c # cs)) = None"
      by blast
    then have 0: "match_here r p (c # cs) = None" by (simp add: prev_char_def)
    have "\<forall>j<k'. match_here r (prev_char (Some c) cs j) (drop j cs) = None"
    proof (intro allI impI)
      fix j assume "j < k'"
      then have "Suc j < k" using Suc by simp
      with Cons.prems(2) have "match_here r (prev_char p (c # cs) (Suc j)) (drop (Suc j) (c # cs)) = None"
        by blast
      then show "match_here r (prev_char (Some c) cs j) (drop j cs) = None"
        by (simp add: prev_char_Suc)
    qed
    moreover have "k' \<le> length cs" using Cons.prems(1) Suc by simp
    ultimately have "all_matches r (Some c) cs = all_matches r (prev_char (Some c) cs k') (drop k' cs)"
      by (rule Cons.IH[rotated])
    with 0 Suc show ?thesis by (simp add: prev_char_Suc)
  qed
qed

lemma no_match_inside:
  assumes m: "match_here issue_pattern p s = Some n" and j: "0 < j" "j < n"
  shows "match_here issue_pattern (Some (s ! (j - 1))) (drop j s) = None"
proof -
  from m have "issue_key_at p s n" by (simp add: issue_key_iff_aux)
  then obtain ls ds rest where s: "s = ls @ cp CHR ''-'' # ds @ rest"
    and n: "n = length ls + 1 + length ds"
    and l: "3 \<le> length ls" "list_all is_letter ls"
    and d: "list_all is_digit ds"
    unfolding issue_key_at_def by blast
  consider "j < length ls" | "j = length ls" | "length ls < j"
    by linarith
  then show ?thesis
  proof cases
    case 1
    then have "j - 1 < length ls" by simp
    then have "s ! (j - 1) \<in> set ls" by (simp add: s nth_append)
    with l have "is_word (s ! (j - 1))" by (auto simp: list_all_iff is_letter_word)
    then show ?thesis by (simp add: issue_pattern_eq Let_def word_before_def)
  next
    case 2
    then have "drop j s = cp CHR ''-'' # ds @ rest" by (simp add: s)
    moreover have "\<not> is_letter (cp CHR ''-'')" using is_letter_not_hyphen by blast
    ultimately show ?thesis by (simp add: issue_pattern_eq Let_def)
  next
    case 3
    define i where "i = j - length ls - 1"
    from 3 j n have i: "i < length ds" "j = length ls + 1 + i" by (auto simp: i_def)
    then have "drop j s = drop i ds @ rest" by (simp add: s)
    moreover from i have "drop i ds = ds ! i # drop (Suc i) ds" by (simp add: Cons_nth_drop_Suc)
    moreover from i d have "\<not> is_letter (ds ! i)"
      by (auto simp: list_all_iff dest!: is_digit_not_letter)
    ultimately show ?thesis by (simp add: issue_pattern_eq Let_def)
  qed
qed

lemma findall_from_all_matches:
  "findall_from issue_pattern p s = all_matches issue_pattern p s"
proof (induction "issue_pattern" p s rule: findall_from.induct)
  case (1 p s)
  show ?case
  proof (cases "match_here issue_pattern p s")
    case None
    with 1 show ?thesis
      by (cases s) (simp_all add: findall_from.simps[of issue_pattern p])
  next
    case (Some n)
    show ?thesis
    proof (cases n)
      case 0
      with Some have "issue_key_at p s 0" by (simp add: issue_key_iff_aux)
      then show ?thesis by (simp add: issue_key_at_def)
    next
      case (Suc m)
      from Some have le: "n \<le> length s" by (rule match_here_le)
      with Suc obtain c cs where s: "s = c # cs" by (cases s) auto
      have IH: "findall_from issue_pattern (Some (s ! m)) (drop (Suc m) s)
          = all_matches issue_pattern (Some (s ! m)) (drop (Suc m) s)"
        using 1(3)[OF Some Suc] .
      have "\<forall>j<m. match_here issue_pattern (prev_char (Some c) cs j) (drop j cs) = None"
      proof (intro allI impI)
        fix j assume "j < m"
        then have "match_here issue_pattern (Some (s ! (Suc j - 1))) (drop (Suc j) s) = None"
          using no_match_inside[OF Some, of "Suc j"] Suc by simp
        then show "match_here issue_pattern (prev_char (Some c) cs j) (drop j cs) = None"
          by (cases j) (simp_all add: s prev_char_def)
      qed
      moreover have "m \<le> length cs" using le Suc s by simp
      ultimately have "all_matches issue_pattern (Some c) cs
          = all_matches issue_pattern (prev_char (Some c) cs m) (drop m cs)"
        by (rule all_matches_none_prefix[rotated])
      also have "prev_char (Some c) cs m = Some (s ! m)"
        by (cases m) (simp_all add: s prev_char_def)
      also have "drop m cs = drop (Suc m) s" by (simp add: s)
      finally have "all_matches issue_pattern p s
          = take n s # all_matches issue_pattern (Some (s ! m)) (drop (Suc m) s)"
        using Some s by simp
      with IH Some Suc show ?thesis
        by (simp add: findall_from.simps[of issue_pattern p s])
    qed
  qed
qed

lemma set_all_matches:
  "set (all_matches r p s) =
     {take n (drop i s) | i n. i < length s \<and> match_here r (prev_char p s i) (drop i s) = Some n}"
proof (induction s arbitrary: p)
  case Nil
  then show ?case by simp
next
  case (Cons c cs)
  have "{take n (drop i (c # cs)) | i n. i < length (c # cs)
          \<and> match_here r (prev_char p (c # cs) i) (drop i (c # cs)) = Some n}
      = {take n (c # cs) | n. match_here r p (c # cs) = Some n}
        \<union> {take n (drop i cs) | i n. i < length cs
          \<and> match_here r (prev_char (Some c) cs i) (drop i cs) = Some n}"
    (is "?A = ?B \<union> ?C")
  proof (intro set_eqI iffI)
    fix x assume "x \<in> ?A"
    then obtain i n where x: "x = take n (drop i (c # cs))" "i < length (c # cs)"
      "match_here r (prev_char p (c # cs) i) (drop i (c # cs)) = Some n" by blast
    show "x \<in> ?B \<union> ?C"
    proof (cases i)
      case 0
      with x show ?thesis by (auto simp: prev_char_def)
    next
      case (Suc j)
      with x have "x = take n (drop j cs)" "j < length cs"
        "match_here r (prev_char (Some c) cs j) (drop j cs) = Some n"
        by (simp_all add: prev_char_Suc)
      then show ?thesis by blast
    qed
  next
    fix x assume "x \<in> ?B \<union> ?C"
    then show "x \<in> ?A"
    proof
      assume "x \<in> ?B"
      then obtain n where "x = take n (drop 0 (c # cs))" "0 < length (c # cs)"
        "match_here r (prev_char p (c # cs) 0) (drop 0 (c # cs)) = Some n"
        by (auto simp: prev_char_def)
      then show ?thesis by blast
    next
      assume "x \<in> ?C"
      then obtain j n where "x = take n (drop (Suc j) (c # cs))" "Suc j < length (c # cs)"
        "match_here r (prev_char p (c # cs) (Suc j)) (drop (Suc j) (c # cs)) = Some n"
        by (auto simp: prev_char_Suc)
      then show ?thesis by blast
    qed
  qed
  moreover have "set (all_matches r p (c # cs)) = ?B \<union> set (all_matches r (Some c) cs)"
    by (auto split: option.splits)
  ultimately show ?case using Cons.IH by simp
qed

lemma set_findall_issue:
  "set (findall issue_pattern s) =
     {take n (drop i s) | i n. i < length s
        \<and> match_here issue_pattern (prev_char None s i) (drop i s) = Some n}"
  unfolding findall_def findall_from_all_matches set_all_matches ..


lemma upper_char_letter: "is_letter c \<Longrightarrow> upper_letter (upper_char c)"
  by (auto simp: is_letter_def upper_letter_def upper_char_def cp_def)

lemma upper_char_digit: "is_digit c \<Longrightarrow> upper_char c = c"
  using is_digit_not_letter[of c]
  by (auto simp: is_letter_def upper_char_def cp_def)

lemma upper_char_hyphen: "upper_char (cp CHR ''-'') = cp CHR ''-''"
  by (simp add: upper_char_def cp_def)

lemma upper_match_shape:
  assumes "match_here issue_pattern p s = Some n"
  shows "\<exists>ls ds. upper (take n s) = ls @ cp CHR ''-'' # ds
           \<and> 3 \<le> length ls \<and> length ls \<le> 5 \<and> list_all upper_letter ls
           \<and> 2 \<le> length ds \<and> length ds \<le> 6 \<and> list_all is_digit ds"
proof -
  from assms have "issue_key_at p s n" by (simp add: issue_key_iff_aux)
  then obtain ls ds rest where s: "s = ls @ cp CHR ''-'' # ds @ rest"
    and n: "n = length ls + 1 + length ds"
    and l: "3 \<le> length ls" "length ls \<le> 5" "list_all is_letter ls"
    and d: "2 \<le> length ds" "length ds \<le> 6" "list_all is_digit ds"
    unfolding issue_key_at_def by blast
  have "take n s = ls @ cp CHR ''-'' # ds" by (simp add: s n)
  moreover have "map upper_char ds = ds"
    using d(3) by (simp add: list_all_iff map_idI upper_char_digit)
  ultimately have "upper (take n s) = map upper_char ls @ cp CHR ''-'' # ds"
    by (simp add: upper_def upper_char_hyphen)
  moreover have "list_all upper_letter (map upper_char ls)"
    using l(3) by (simp add: list_all_iff upper_char_letter)
  ultimately show ?thesis using l d by (intro exI[of _ "map upper_char ls"] exI[of _ ds]) simp
qed

lemma upper_no_lower: "x \<in> set (upper m) \<Longrightarrow> \<not> (cp CHR ''a'' \<le> x \<and> x \<le> cp CHR ''z'')"
  by (auto simp: upper_def upper_char_def cp_def split: if_splits)

lemma sorted_list_of_two: "a < b \<Longrightarrow> sorted_list_of_set {a, b} = [a, b]"
  for a b :: ustr
  by (simp add: sorted_list_of_set_insert_remove insort_is_Cons less_imp_le)

text \<open>
  C4. \<^verbatim>\<open>analyze_commits\<close> on commit records whose messages are strings returns the
  links \<open>base @ key\<close> for the keys in strictly ascending lexicographic order, where
  the keys are exactly the upper-cased matches of the issue-key pattern in the
  messages, those at every position of every message; no key has a lower-case letter
  a to z: a key is 3 to 5 upper-case letters, a hyphen and 2 to 6 digits, and every key
  occurs once. (A message that is not a string raises
  \<^verbatim>\<open>TypeError\<close>.) The result depends only on the set of commit records: their order and
  their repetition do not change it, and extracting from a list followed by itself
  gives the same links. The two messages \<^verbatim>\<open>Fix ABC-123\<close> and \<^verbatim>\<open>ABC-123 again\<close> give the
  one link for \<^verbatim>\<open>ABC-123\<close>; the one message \<^verbatim>\<open>fix zzz-90 and abc-12, ABC-12\<close> gives the
  links for \<^verbatim>\<open>ABC-12\<close> and \<^verbatim>\<open>ZZZ-90\<close>, in this order; three long s U+017F, a hyphen and
  \<^verbatim>\<open>12\<close> give the link for \<^verbatim>\<open>SSS-12\<close>.
\<close>

theorem analyze_commits_unique_sorted:
  "((\<forall>c\<in>set cs. \<forall>v. map_of c (str ''message'') = Some v \<longrightarrow> (\<exists>m. v = JStr m)) \<longrightarrow>
      (\<exists>keys. snd (analyze_commits cs base) = Inr (map (\<lambda>k. base @ k) keys)
         \<and> sorted_wrt (<) keys
         \<and> set keys = {upper m | m s c. c \<in> set cs \<and> map_of c (str ''message'') = Some (JStr s)
                           \<and> m \<in> set (findall issue_pattern s)}
         \<and> set keys = {upper (take n (drop i s)) | i n s c.
               c \<in> set cs \<and> map_of c (str ''message'') = Some (JStr s) \<and> i < length s
               \<and> match_here issue_pattern (prev_char None s i) (drop i s) = Some n}
         \<and> (\<forall>k\<in>set keys. \<forall>x\<in>set k. \<not> (cp CHR ''a'' \<le> x \<and> x \<le> cp CHR ''z''))
         \<and> (\<forall>k\<in>set keys. \<exists>ls ds. k = ls @ cp CHR ''-'' # ds
               \<and> 3 \<le> length ls \<and> length ls \<le> 5 \<and> list_all upper_letter ls
               \<and> 2 \<le> length ds \<and> length ds \<le> 6 \<and> list_all is_digit ds)
         \<and> distinct (map (\<lambda>k. base @ k) keys)))
   \<and> ((\<exists>c\<in>set cs. \<exists>v. map_of c (str ''message'') = Some v \<and> (\<forall>m. v \<noteq> JStr m)) \<longrightarrow>
        snd (analyze_commits cs base) = Inl TypeError)
   \<and> (set cs = set cs' \<longrightarrow>
        snd (analyze_commits cs base) = snd (analyze_commits cs' base))
   \<and> snd (analyze_commits (cs @ cs) base) = snd (analyze_commits cs base)
   \<and> snd (analyze_commits [[((str ''message''), JStr (str ''Fix ABC-123''))],
                            [((str ''message''), JStr (str ''ABC-123 again''))]] base)
       = Inr [base @ (str ''ABC-123'')]
   \<and> snd (analyze_commits
             [[((str ''message''), JStr (str ''fix zzz-90 and abc-12, ABC-12''))]] base)
       = Inr [base @ str ''ABC-12'', base @ str ''ZZZ-90'']
   \<and> snd (analyze_commits
             [[((str ''message''), JStr ([0x17F, 0x17F, 0x17F] @ str ''-12''))]] base)
       = Inr [base @ str ''SSS-12'']"
proof (intro conjI impI)
  assume wf: "\<forall>c\<in>set cs. \<forall>v. map_of c (str ''message'') = Some v \<longrightarrow> (\<exists>m. v = JStr m)"
  define K where "K = (\<Union>c\<in>set cs. found_in c)"
  define keys where "keys = sorted_list_of_set K"
  have fin: "finite K" unfolding K_def by (rule finite_found_in)
  from wf have no: "\<not> (\<exists>c\<in>set cs. commit_refs c = Inl TypeError)"
    by (auto simp: commit_refs_TypeError)
  have 1: "snd (analyze_commits cs base) = Inr (map (\<lambda>k. base @ k) keys)"
    unfolding snd_analyze_commits keys_def K_def using no by simp
  have 2: "sorted_wrt (<) keys"
    unfolding keys_def by (rule strict_sorted_list_of_set)
  have sk: "set keys = K" unfolding keys_def using fin by simp
  have "K = {upper m | m s c. c \<in> set cs \<and> map_of c (str ''message'') = Some (JStr s)
                           \<and> m \<in> set (findall issue_pattern s)}"
    unfolding K_def found_in_str
    by (auto split: option.splits json.splits) force
  with sk have 3: "set keys = {upper m | m s c. c \<in> set cs
      \<and> map_of c (str ''message'') = Some (JStr s) \<and> m \<in> set (findall issue_pattern s)}"
    by simp
  have 4: "set keys = {upper (take n (drop i s)) | i n s c.
               c \<in> set cs \<and> map_of c (str ''message'') = Some (JStr s) \<and> i < length s
               \<and> match_here issue_pattern (prev_char None s i) (drop i s) = Some n}"
    unfolding 3 set_findall_issue by blast
  have 5: "\<forall>k\<in>set keys. \<forall>x\<in>set k. \<not> (cp CHR ''a'' \<le> x \<and> x \<le> cp CHR ''z'')"
    unfolding 3 using upper_no_lower by blast
  have 7: "\<forall>k\<in>set keys. \<exists>ls ds. k = ls @ cp CHR ''-'' # ds
               \<and> 3 \<le> length ls \<and> length ls \<le> 5 \<and> list_all upper_letter ls
               \<and> 2 \<le> length ds \<and> length ds \<le> 6 \<and> list_all is_digit ds"
    unfolding 4 using upper_match_shape by blast
  have "distinct keys" unfolding keys_def by simp
  then have 6: "distinct (map (\<lambda>k. base @ k) keys)"
    by (simp add: distinct_map inj_on_def)
  from 1 2 3 4 5 6 7 show "\<exists>keys. snd (analyze_commits cs base) = Inr (map (\<lambda>k. base @ k) keys)
         \<and> sorted_wrt (<) keys
         \<and> set keys = {upper m | m s c. c \<in> set cs \<and> map_of c (str ''message'') = Some (JStr s)
                           \<and> m \<in> set (findall issue_pattern s)}
         \<and> set keys = {upper (take n (drop i s)) | i n s c.
               c \<in> set cs \<and> map_of c (str ''message'') = Some (JStr s) \<and> i < length s
               \<and> match_here issue_pattern (prev_char None s i) (drop i s) = Some n}
         \<and> (\<forall>k\<in>set keys. \<forall>x\<in>set k. \<not> (cp CHR ''a'' \<le> x \<and> x \<le> cp CHR ''z''))
         \<and> (\<forall>k\<in>set keys. \<exists>ls ds. k = ls @ cp CHR ''-'' # ds
               \<and> 3 \<le> length ls \<and> length ls \<le> 5 \<and> list_all upper_letter ls
               \<and> 2 \<le> length ds \<and> length ds \<le> 6 \<and> list_all is_digit ds)
         \<and> distinct (map (\<lambda>k. base @ k) keys)"
    by blast
next
  assume "\<exists>c\<in>set cs. \<exists>v. map_of c (str ''message'') = Some v \<and> (\<forall>m. v \<noteq> JStr m)"
  then show "snd (analyze_commits cs base) = Inl TypeError"
    by (auto simp: snd_analyze_commits commit_refs_TypeError)
next
  assume "set cs = set cs'"
  then show "snd (analyze_commits cs base) = snd (analyze_commits cs' base)"
    by (simp add: snd_analyze_commits)
next
  show "snd (analyze_commits (cs @ cs) base) = snd (analyze_commits cs base)"
    by (simp add: snd_analyze_commits)
next
  have f1: "findall issue_pattern (str ''Fix ABC-123'') = [(str ''ABC-123'')]" by (simp add: evals)
  have f2: "findall issue_pattern (str ''ABC-123 again'') = [(str ''ABC-123'')]" by (simp add: evals)
  have u: "upper (str ''ABC-123'') = (str ''ABC-123'')" by (simp add: evals)
  show "snd (analyze_commits [[((str ''message''), JStr (str ''Fix ABC-123''))],
                            [((str ''message''), JStr (str ''ABC-123 again''))]] base)
       = Inr [base @ (str ''ABC-123'')]"
    by (simp add: snd_analyze_commits commit_refs_TypeError found_in_str f1 f2 u)
next
  have f: "findall issue_pattern (str ''fix zzz-90 and abc-12, ABC-12'')
      = [str ''zzz-90'', str ''abc-12'', str ''ABC-12'']"
    by (simp add: evals)
  have u: "upper (str ''zzz-90'') = str ''ZZZ-90''" "upper (str ''abc-12'') = str ''ABC-12''"
    "upper (str ''ABC-12'') = str ''ABC-12''"
    by (simp_all add: evals)
  have l: "str ''ABC-12'' < str ''ZZZ-90''" by (simp add: str_def cp_def)
  have "{str ''ZZZ-90'', str ''ABC-12''} = {str ''ABC-12'', str ''ZZZ-90''}" by blast
  then have "sorted_list_of_set {str ''ZZZ-90'', str ''ABC-12''} = [str ''ABC-12'', str ''ZZZ-90'']"
    using sorted_list_of_two[OF l] by simp
  then show "snd (analyze_commits
             [[((str ''message''), JStr (str ''fix zzz-90 and abc-12, ABC-12''))]] base)
       = Inr [base @ str ''ABC-12'', base @ str ''ZZZ-90'']"
    by (simp add: snd_analyze_commits commit_refs_TypeError found_in_str f u)
next
  have d: "\<not> is_digit 0x17F"
    by (simp add: is_digit_def digit_ranges_def in_ranges_Cons in_ranges_Nil)
  have l: "is_letter 0x17F" by (simp add: is_letter_def cp_def)
  have w: "is_word 0x17F" by (simp add: is_word_def l)
  have f: "findall issue_pattern (0x17F # 0x17F # 0x17F # str ''-12'')
      = [0x17F # 0x17F # 0x17F # str ''-12'']"
    by (simp add: evals d l w)
  have u: "upper (0x17F # 0x17F # 0x17F # str ''-12'') = str ''SSS-12''"
    by (simp add: evals)
  show "snd (analyze_commits
             [[((str ''message''), JStr ([0x17F, 0x17F, 0x17F] @ str ''-12''))]] base)
       = Inr [base @ str ''SSS-12'']"
    by (simp add: snd_analyze_commits commit_refs_TypeError found_in_str f u)
qed

theorem analyze_commits_unique_sorted_witness:
  "(\<exists>keys. snd (analyze_commits
        [[((str ''message''), JStr (str ''Fix zzz-90 for abc-12''))], [((str ''sha''), JStr (str ''0123456''))],
         [((str ''message''), JStr (str ''ABC-12 again''))]] (str ''B/'')) = Inr (map (\<lambda>k. (str ''B/'') @ k) keys)
      \<and> sorted_wrt (<) keys \<and> distinct (map (\<lambda>k. (str ''B/'') @ k) keys))
   \<and> snd (analyze_commits
        [[((str ''message''), JStr (str ''Fix zzz-90 for abc-12''))], [((str ''sha''), JStr (str ''0123456''))],
         [((str ''message''), JStr (str ''ABC-12 again''))]] (str ''B/''))
     = snd (analyze_commits
        [[((str ''message''), JStr (str ''ABC-12 again''))], [((str ''sha''), JStr (str ''0123456''))],
         [((str ''message''), JStr (str ''Fix zzz-90 for abc-12''))]] (str ''B/''))"
proof -
  let ?C = "[[((str ''message''), JStr (str ''Fix zzz-90 for abc-12''))], [((str ''sha''), JStr (str ''0123456''))],
             [((str ''message''), JStr (str ''ABC-12 again''))]]"
  let ?D = "[[((str ''message''), JStr (str ''ABC-12 again''))], [((str ''sha''), JStr (str ''0123456''))],
             [((str ''message''), JStr (str ''Fix zzz-90 for abc-12''))]]"
  have wf: "\<forall>c\<in>set ?C. \<forall>v. map_of c (str ''message'') = Some v \<longrightarrow> (\<exists>m. v = JStr m)"
    by simp
  have eq: "set ?C = set ?D" by auto
  from wf eq show ?thesis
    using analyze_commits_unique_sorted[of ?C "(str ''B/'')" ?D] by blast
qed

section \<open>Build resolution\<close>

lemma snd_get_azure_build_commit:
  "snd (get_azure_build_commit w org project definition_id branch build_number pat) =
     (case http_get w (azure_url w org project) definition_id branch build_number pat of
        RequestFailed \<Rightarrow> Inr JNull
      | Response None \<Rightarrow> Inr JNull
      | Response (Some data) \<Rightarrow>
          then_ok (py_get data (str ''count'') (JInt 0)) (\<lambda>count.
          if eq_zero count then Inr JNull
          else
            then_ok (py_getitem data (str ''value'')) (\<lambda>v.
            then_ok (py_iter v) (\<lambda>bs.
            then_ok (first_succeeded bs) (\<lambda>build.
            if \<not> truthy build then Inr JNull
            else
              then_ok (py_get build (str ''sourceVersion'') JNull) (\<lambda>commit_sha.
              if \<not> truthy commit_sha then Inr JNull else Inr commit_sha))))))"
  by (simp add: get_azure_build_commit_def Let_def snd_lift_then snd_emit_then run_simps
      then_ok_def split: http_outcome.splits option.splits sum.splits)

lemma first_succeeded_find:
  "\<forall>b\<in>set bs. \<exists>kvs. b = JObj kvs \<Longrightarrow>
     first_succeeded bs = Inr (case find succeeded bs of None \<Rightarrow> JNull | Some b \<Rightarrow> b)"
  by (induction bs) (auto simp: succeeded_def)

lemma succeeded_truthy: "succeeded b \<Longrightarrow> truthy b"
  by (cases b) (auto simp: succeeded_def)

lemma succeeded_obj: "succeeded b \<Longrightarrow> \<exists>kvs. b = JObj kvs"
  by (cases b) (auto simp: succeeded_def)


text \<open>
  C2. Let the build-list query answer with a JSON object. When its \<^verbatim>\<open>count\<close> is 0 or
  missing (the test by which the code takes the result set to be empty),
  \<^verbatim>\<open>get_azure_build_commit\<close> returns \<^verbatim>\<open>None\<close>. Otherwise, with \<^verbatim>\<open>value\<close> a list of
  objects of any length, it returns \<^verbatim>\<open>None\<close> when no entry is succeeded (the status
  of the claim is the entry's \<^verbatim>\<open>result\<close> field) and when the source revision of the
  first succeeded entry is missing or empty (falsy), and in every other case the
  source revision of the first succeeded entry.
\<close>

theorem resolver_first_succeeded:
  assumes "http_get w (azure_url w org project) definition_id branch build_number pat
             = Response (Some (JObj resp))"
  shows
    "((case map_of resp (str ''count'') of None \<Rightarrow> True | Some c \<Rightarrow> eq_zero c) \<longrightarrow>
        snd (get_azure_build_commit w org project definition_id branch build_number pat)
          = Inr JNull)
     \<and> ((case map_of resp (str ''count'') of None \<Rightarrow> False | Some c \<Rightarrow> \<not> eq_zero c)
          \<and> map_of resp (str ''value'') = Some (JArr bs) \<and> (\<forall>b\<in>set bs. \<exists>kvs. b = JObj kvs) \<longrightarrow>
        snd (get_azure_build_commit w org project definition_id branch build_number pat)
          = Inr (case find succeeded bs of
                   None \<Rightarrow> JNull
                 | Some b \<Rightarrow> if truthy (source_version b) then source_version b else JNull))"
proof (intro conjI impI)
  assume "case map_of resp (str ''count'') of None \<Rightarrow> True | Some c \<Rightarrow> eq_zero c"
  then show "snd (get_azure_build_commit w org project definition_id branch build_number pat)
      = Inr JNull"
    using assms
    by (auto simp: snd_get_azure_build_commit then_ok_def split: option.splits)
next
  assume a: "(case map_of resp (str ''count'') of None \<Rightarrow> False | Some c \<Rightarrow> \<not> eq_zero c)
          \<and> map_of resp (str ''value'') = Some (JArr bs) \<and> (\<forall>b\<in>set bs. \<exists>kvs. b = JObj kvs)"
  then have fs: "first_succeeded bs
      = Inr (case find succeeded bs of None \<Rightarrow> JNull | Some b \<Rightarrow> b)"
    using first_succeeded_find by blast
  show "snd (get_azure_build_commit w org project definition_id branch build_number pat)
          = Inr (case find succeeded bs of
                   None \<Rightarrow> JNull
                 | Some b \<Rightarrow> if truthy (source_version b) then source_version b else JNull)"
  proof (cases "find succeeded bs")
    case None
    with a fs assms show ?thesis
      by (auto simp: snd_get_azure_build_commit then_ok_def split: option.splits)
  next
    case (Some b)
    then have sb: "succeeded b" by (auto simp: find_Some_iff)
    then obtain kvs where b: "b = JObj kvs" using succeeded_obj by blast
    from sb have "truthy b" by (rule succeeded_truthy)
    with a fs assms Some b show ?thesis
      by (auto simp: snd_get_azure_build_commit then_ok_def source_version_def
          split: option.splits)
  qed
qed

theorem resolver_first_succeeded_witness:
  "snd (get_azure_build_commit
     (fixture (\<lambda>bn. Response (Some (JObj
        [((str ''count''), JInt 3),
         ((str ''value''), JArr
            [JObj [((str ''result''), JStr (str ''failed'')), ((str ''sourceVersion''), JStr (str ''aaa''))],
             JObj [((str ''result''), JStr (str ''succeeded'')), ((str ''sourceVersion''), JStr (str ''bbb''))],
             JObj [((str ''result''), JStr (str ''succeeded'')), ((str ''sourceVersion''), JStr (str ''ccc''))]])])))
        FileNotFound None)
     (JStr (str ''org'')) (JStr (str ''proj'')) (JInt 7) (JStr (str ''main'')) (JStr (str ''1.2.3'')) (JStr (str ''pat'')))
   = Inr (JStr (str ''bbb''))
   \<and> snd (get_azure_build_commit
     (fixture (\<lambda>bn. Response (Some (JObj
        [((str ''count''), JInt 0),
         ((str ''value''), JArr
            [JObj [((str ''result''), JStr (str ''succeeded'')), ((str ''sourceVersion''), JStr (str ''bbb''))]])])))
        FileNotFound None)
     (JStr (str ''org'')) (JStr (str ''proj'')) (JInt 7) (JStr (str ''main'')) (JStr (str ''1.2.3'')) (JStr (str ''pat'')))
   = Inr JNull"
proof -
  let ?bs = "[JObj [((str ''result''), JStr (str ''failed'')), ((str ''sourceVersion''), JStr (str ''aaa''))],
             JObj [((str ''result''), JStr (str ''succeeded'')), ((str ''sourceVersion''), JStr (str ''bbb''))],
             JObj [((str ''result''), JStr (str ''succeeded'')), ((str ''sourceVersion''), JStr (str ''ccc''))]]"
  let ?r1 = "[((str ''count''), JInt 3), ((str ''value''), JArr ?bs)]"
  let ?r2 = "[((str ''count''), JInt 0),
         ((str ''value''), JArr
            [JObj [((str ''result''), JStr (str ''succeeded'')), ((str ''sourceVersion''), JStr (str ''bbb''))]])]"
  let ?w1 = "fixture (\<lambda>bn. Response (Some (JObj ?r1))) FileNotFound None"
  let ?w2 = "fixture (\<lambda>bn. Response (Some (JObj ?r2))) FileNotFound None"
  have h1: "http_get ?w1 (azure_url ?w1 (JStr (str ''org'')) (JStr (str ''proj''))) (JInt 7) (JStr (str ''main''))
      (JStr (str ''1.2.3'')) (JStr (str ''pat'')) = Response (Some (JObj ?r1))"
    by (simp add: fixture_def)
  have h2: "http_get ?w2 (azure_url ?w2 (JStr (str ''org'')) (JStr (str ''proj''))) (JInt 7) (JStr (str ''main''))
      (JStr (str ''1.2.3'')) (JStr (str ''pat'')) = Response (Some (JObj ?r2))"
    by (simp add: fixture_def)
  have f: "(case find succeeded ?bs of None \<Rightarrow> JNull
      | Some b \<Rightarrow> if truthy (source_version b) then source_version b else JNull) = JStr (str ''bbb'')"
    by (simp add: succeeded_def source_version_def)
  show ?thesis
    using resolver_first_succeeded[OF h1, of ?bs] resolver_first_succeeded[OF h2, of "[]"]
    unfolding f by simp
qed

section \<open>The commit range\<close>

lemma snd_get_github_commits_between:
  "snd (get_github_commits_between w repo sha1 sha2) =
     then_ok (py_slice7 (dict_slice_exn w) sha1) (\<lambda>short1.
     then_ok (py_slice7 (dict_slice_exn w) sha2) (\<lambda>short2.
     case gh_api w (compare_path w repo sha1 sha2) of
       TimeoutExpired \<Rightarrow> Inr ([], compare_url w repo sha1 sha2)
     | FileNotFound \<Rightarrow> Inr ([], compare_url w repo sha1 sha2)
     | Completed returncode stdout stderr \<Rightarrow>
         if returncode \<noteq> 0 then Inr ([], compare_url w repo sha1 sha2)
         else
           (case json_loads w stdout of
              None \<Rightarrow> Inr ([], compare_url w repo sha1 sha2)
            | Some data \<Rightarrow>
                then_ok (py_get data (str ''commits'') (JArr [])) (\<lambda>commits.
                then_ok (py_len commits) (\<lambda>n.
                then_ok (py_iter commits) (\<lambda>cs.
                then_ok (snd (collect_commits (dict_slice_exn w) cs)) (\<lambda>commit_list.
                Inr (commit_list, compare_url w repo sha1 sha2))))))))"
  by (simp add: get_github_commits_between_def Let_def snd_lift_then snd_emit_then
      snd_and_then run_simps then_ok_def
      split: proc_outcome.splits option.splits sum.splits)

lemma fst_get_github_commits_between:
  "\<exists>l. fst (get_github_commits_between w repo sha1 sha2)
         = Print (CompareUrl (compare_url w repo sha1 sha2)) # l"
  by (simp add: get_github_commits_between_def Let_def fst_and_then run_simps
      split: sum.splits)

text \<open>
  C5. For string SHAs and repository id the comparison URL is
  \<^verbatim>\<open>https://github.com/{repo}/compare/{sha1}...{sha2}\<close>. \<^verbatim>\<open>get_github_commits_between\<close>
  prints it before anything else, every value it returns has it as second component,
  and on each failure path (non-zero exit of the tool, timeout, missing executable,
  output that is not JSON) it returns the empty commit list paired with it.
\<close>

theorem fetcher_url_on_every_return:
  "compare_url w (JStr repo) (JStr sha1) (JStr sha2)
     = (str ''https://github.com/'') @ repo @ (str ''/compare/'') @ sha1 @ (str ''...'') @ sha2
   \<and> (\<exists>l. fst (get_github_commits_between w (JStr repo) (JStr sha1) (JStr sha2))
          = Print (CompareUrl (compare_url w (JStr repo) (JStr sha1) (JStr sha2))) # l)
   \<and> (\<forall>commit_list url.
        snd (get_github_commits_between w (JStr repo) (JStr sha1) (JStr sha2))
          = Inr (commit_list, url) \<longrightarrow>
        url = compare_url w (JStr repo) (JStr sha1) (JStr sha2))
   \<and> (gh_api w (compare_path w (JStr repo) (JStr sha1) (JStr sha2))
         = Completed returncode stdout stderr \<and> returncode \<noteq> 0 \<longrightarrow>
       snd (get_github_commits_between w (JStr repo) (JStr sha1) (JStr sha2))
         = Inr ([], compare_url w (JStr repo) (JStr sha1) (JStr sha2)))
   \<and> (gh_api w (compare_path w (JStr repo) (JStr sha1) (JStr sha2)) = TimeoutExpired \<longrightarrow>
       snd (get_github_commits_between w (JStr repo) (JStr sha1) (JStr sha2))
         = Inr ([], compare_url w (JStr repo) (JStr sha1) (JStr sha2)))
   \<and> (gh_api w (compare_path w (JStr repo) (JStr sha1) (JStr sha2)) = FileNotFound \<longrightarrow>
       snd (get_github_commits_between w (JStr repo) (JStr sha1) (JStr sha2))
         = Inr ([], compare_url w (JStr repo) (JStr sha1) (JStr sha2)))
   \<and> (gh_api w (compare_path w (JStr repo) (JStr sha1) (JStr sha2))
         = Completed 0 stdout stderr \<and> json_loads w stdout = None \<longrightarrow>
       snd (get_github_commits_between w (JStr repo) (JStr sha1) (JStr sha2))
         = Inr ([], compare_url w (JStr repo) (JStr sha1) (JStr sha2)))"
proof (intro conjI allI impI)
  show "compare_url w (JStr repo) (JStr sha1) (JStr sha2)
     = (str ''https://github.com/'') @ repo @ (str ''/compare/'') @ sha1 @ (str ''...'') @ sha2"
    by (simp add: compare_url_def)
next
  show "\<exists>l. fst (get_github_commits_between w (JStr repo) (JStr sha1) (JStr sha2))
          = Print (CompareUrl (compare_url w (JStr repo) (JStr sha1) (JStr sha2))) # l"
    by (rule fst_get_github_commits_between)
next
  fix commit_list url
  assume "snd (get_github_commits_between w (JStr repo) (JStr sha1) (JStr sha2))
          = Inr (commit_list, url)"
  then show "url = compare_url w (JStr repo) (JStr sha1) (JStr sha2)"
    by (auto simp: snd_get_github_commits_between then_ok_def
        split: proc_outcome.splits option.splits sum.splits if_splits)
qed (simp_all add: snd_get_github_commits_between then_ok_def)


theorem fetcher_url_on_every_return_witness:
  "snd (get_github_commits_between
          (fixture (\<lambda>_. RequestFailed) (Completed 1 [] (str ''not found'')) None)
          (JStr (str ''org/repo'')) (JStr (str ''aaaaaaa1'')) (JStr (str ''bbbbbbb2'')))
     = Inr ([], (str ''https://github.com/org/repo/compare/aaaaaaa1...bbbbbbb2''))
   \<and> snd (get_github_commits_between
          (fixture (\<lambda>_. RequestFailed) TimeoutExpired None)
          (JStr (str ''org/repo'')) (JStr (str ''aaaaaaa1'')) (JStr (str ''bbbbbbb2'')))
     = Inr ([], (str ''https://github.com/org/repo/compare/aaaaaaa1...bbbbbbb2''))
   \<and> snd (get_github_commits_between
          (fixture (\<lambda>_. RequestFailed) FileNotFound None)
          (JStr (str ''org/repo'')) (JStr (str ''aaaaaaa1'')) (JStr (str ''bbbbbbb2'')))
     = Inr ([], (str ''https://github.com/org/repo/compare/aaaaaaa1...bbbbbbb2''))
   \<and> snd (get_github_commits_between
          (fixture (\<lambda>_. RequestFailed) (Completed 0 (str ''{'') []) None)
          (JStr (str ''org/repo'')) (JStr (str ''aaaaaaa1'')) (JStr (str ''bbbbbbb2'')))
     = Inr ([], (str ''https://github.com/org/repo/compare/aaaaaaa1...bbbbbbb2''))"
  using
    fetcher_url_on_every_return[of "fixture (\<lambda>_. RequestFailed) (Completed 1 [] (str ''not found'')) None"
      "(str ''org/repo'')" "(str ''aaaaaaa1'')" "(str ''bbbbbbb2'')" 1 "[]" "(str ''not found'')"]
    fetcher_url_on_every_return[of "fixture (\<lambda>_. RequestFailed) TimeoutExpired None"
      "(str ''org/repo'')" "(str ''aaaaaaa1'')" "(str ''bbbbbbb2'')"]
    fetcher_url_on_every_return[of "fixture (\<lambda>_. RequestFailed) FileNotFound None"
      "(str ''org/repo'')" "(str ''aaaaaaa1'')" "(str ''bbbbbbb2'')"]
    fetcher_url_on_every_return[of "fixture (\<lambda>_. RequestFailed) (Completed 0 (str ''{'') []) None"
      "(str ''org/repo'')" "(str ''aaaaaaa1'')" "(str ''bbbbbbb2'')" 0 "(str ''{'')" "[]"]
  by (simp add: fixture_def)

lemma commit_info_wf:
  assumes "well_formed_entry c"
  shows "commit_info dx c = (if has_all_four c then Inr (record_of c) else Inl KeyError)"
proof -
  from assms obtain kvs where c: "c = JObj kvs"
    by (cases c) (auto simp: well_formed_entry_def is_obj_def)
  show ?thesis
  proof (cases "map_of kvs (str ''sha'')")
    case None
    then show ?thesis
      by (simp add: c commit_info_def then_ok_def has_all_four_def has_field_def)
  next
    case (Some sha)
    with assms c obtain s where sha: "sha = JStr s"
      by (cases sha) (auto simp: well_formed_entry_def field_typed_def is_str_def)
    show ?thesis
    proof (cases "map_of kvs (str ''commit'')")
      case None
      with Some show ?thesis
        by (simp add: c sha commit_info_def then_ok_def has_all_four_def has_field_def)
    next
      case cm: (Some commit)
      with assms c obtain ckvs where commit: "commit = JObj ckvs"
        by (cases commit) (auto simp: well_formed_entry_def field_typed_def is_obj_def)
      show ?thesis
      proof (cases "map_of ckvs (str ''message'')")
        case None
        with Some cm show ?thesis
          by (simp add: c sha commit commit_info_def then_ok_def has_all_four_def
              has_field_def)
      next
        case m: (Some message)
        show ?thesis
        proof (cases "map_of ckvs (str ''author'')")
          case None
          with Some cm m show ?thesis
            by (simp add: c sha commit commit_info_def then_ok_def has_all_four_def
                has_field_def)
        next
          case au: (Some author)
          with assms c cm commit obtain akvs where author: "author = JObj akvs"
            by (cases author) (auto simp: well_formed_entry_def field_typed_def is_obj_def)
          from Some cm m au show ?thesis
            by (auto simp: c sha commit author commit_info_def then_ok_def has_all_four_def
                has_field_def record_of_def field_def split: option.splits)
        qed
      qed
    qed
  qed
qed


lemma printed_line_wf:
  assumes "well_formed_entry c" "has_all_four c"
  shows "\<exists>line. printed_line (record_of c) = Inr line"
proof -
  from assms obtain m where "field c [(str ''commit''), (str ''message'')] = JStr m"
    by (cases "lookup_path c [(str ''commit''), (str ''message'')]";
        cases "the (lookup_path c [(str ''commit''), (str ''message'')])")
       (auto simp: well_formed_entry_def has_all_four_def has_field_def field_typed_def
          field_def is_str_def)
  then show ?thesis
    by (simp add: printed_line_def record_of_def then_ok_def dict_getitem_def)
qed

lemma collect_commits_wf:
  "\<forall>c\<in>set cs. well_formed_entry c \<Longrightarrow>
     snd (collect_commits dx cs) = Inr (map record_of (filter has_all_four cs))"
proof (induction cs)
  case Nil
  then show ?case by (simp add: run_simps)
next
  case (Cons c cs)
  then have wf: "well_formed_entry c"
    and IH: "snd (collect_commits dx cs) = Inr (map record_of (filter has_all_four cs))"
    by auto
  show ?case
  proof (cases "has_all_four c")
    case False
    with wf IH show ?thesis
      by (simp add: commit_info_wf snd_emit_then)
  next
    case True
    with wf obtain line where "printed_line (record_of c) = Inr line"
      using printed_line_wf by blast
    with wf True IH show ?thesis
      by (simp add: commit_info_wf snd_emit_then snd_and_then run_simps)
  qed
qed

lemmas wf_simps = well_formed_entry_def is_obj_def is_str_def field_typed_def has_all_four_def
  has_field_def record_of_def field_def

lemma skips_collect_commits_wf:
  "\<forall>c\<in>set cs. well_formed_entry c \<Longrightarrow>
     length (filter (\<lambda>e. e = Print SkippingMalformedCommit) (fst (collect_commits dx cs)))
       = length (filter (\<lambda>c. \<not> has_all_four c) cs)"
proof (induction cs)
  case Nil
  then show ?case by (simp add: run_simps)
next
  case (Cons c cs)
  then have wf: "well_formed_entry c" by simp
  show ?case
  proof (cases "has_all_four c")
    case False
    with wf Cons show ?thesis
      by (simp add: commit_info_wf fst_emit_then)
  next
    case True
    with wf obtain line where pl: "printed_line (record_of c) = Inr line"
      using printed_line_wf by blast
    then have "line \<noteq> SkippingMalformedCommit"
      by (auto simp: printed_line_def then_ok_def split: sum.splits)
    with wf True pl Cons show ?thesis
      by (simp add: commit_info_wf fst_emit_then fst_and_then run_simps split: sum.splits)
  qed
qed

text \<open>
  What the fetcher does when every entry is well formed. Let the tool exit with 0 and
  its output parse to a JSON value whose \<^verbatim>\<open>commits\<close> (the empty list when the key is
  missing) is a list of well-formed entries. Then the fetcher returns the records of
  exactly the entries that have all of \<^verbatim>\<open>sha\<close>, \<^verbatim>\<open>commit.message\<close>,
  \<^verbatim>\<open>commit.author.name\<close> and \<^verbatim>\<open>commit.author.date\<close>, in the order of the response, and
  prints one skip warning for each other entry.
\<close>

lemma fetcher_keeps_complete_entries:
  assumes "gh_api w (compare_path w (JStr repo) (JStr sha1) (JStr sha2))
             = Completed 0 stdout stderr"
    and "json_loads w stdout = Some data"
    and "py_get data (str ''commits'') (JArr []) = Inr (JArr cs)"
    and "\<forall>c\<in>set cs. well_formed_entry c"
  shows "snd (get_github_commits_between w (JStr repo) (JStr sha1) (JStr sha2))
           = Inr (map record_of (filter has_all_four cs),
                  compare_url w (JStr repo) (JStr sha1) (JStr sha2))
         \<and> length (filter (\<lambda>e. e = Print SkippingMalformedCommit)
              (fst (get_github_commits_between w (JStr repo) (JStr sha1) (JStr sha2))))
           = length (filter (\<lambda>c. \<not> has_all_four c) cs)"
proof
  show "snd (get_github_commits_between w (JStr repo) (JStr sha1) (JStr sha2))
           = Inr (map record_of (filter has_all_four cs),
                  compare_url w (JStr repo) (JStr sha1) (JStr sha2))"
    using assms by (simp add: snd_get_github_commits_between then_ok_def collect_commits_wf)
  show "length (filter (\<lambda>e. e = Print SkippingMalformedCommit)
              (fst (get_github_commits_between w (JStr repo) (JStr sha1) (JStr sha2))))
           = length (filter (\<lambda>c. \<not> has_all_four c) cs)"
    using assms skips_collect_commits_wf[of cs "dict_slice_exn w"]
    by (simp add: get_github_commits_between_def Let_def fst_emit_then fst_lift_then
        fst_and_then run_simps collect_commits_wf)
qed

lemma fetcher_keeps_complete_entries_sample:
  "snd (get_github_commits_between
          (fixture (\<lambda>_. RequestFailed) (Completed 0 [] []) (Some sample_response))
          (JStr (str ''org/repo'')) (JStr (str ''aaaaaaa1'')) (JStr (str ''bbbbbbb2'')))
     = Inr (sample_records, (str ''https://github.com/org/repo/compare/aaaaaaa1...bbbbbbb2''))
   \<and> length (filter (\<lambda>e. e = Print SkippingMalformedCommit)
         (fst (get_github_commits_between
            (fixture (\<lambda>_. RequestFailed) (Completed 0 [] []) (Some sample_response))
            (JStr (str ''org/repo'')) (JStr (str ''aaaaaaa1'')) (JStr (str ''bbbbbbb2''))))) = 1"
proof -
  let ?w = "fixture (\<lambda>_. RequestFailed) (Completed 0 [] []) (Some sample_response)"
  obtain cs where cs: "sample_response = JObj [((str ''commits''), JArr cs)]"
    and wf: "\<forall>c\<in>set cs. well_formed_entry c"
    and r: "map record_of (filter has_all_four cs) = sample_records"
    and k: "length (filter (\<lambda>c. \<not> has_all_four c) cs) = 1"
    by (simp add: sample_response_def sample_records_def wf_simps)
  have gh: "gh_api ?w (compare_path ?w (JStr (str ''org/repo'')) (JStr (str ''aaaaaaa1'')) (JStr (str ''bbbbbbb2'')))
      = Completed 0 [] []"
    and js: "json_loads ?w [] = Some sample_response"
    by (simp_all add: fixture_def)
  have g: "py_get sample_response (str ''commits'') (JArr []) = Inr (JArr cs)"
    by (simp add: cs)
  show ?thesis
    using fetcher_keeps_complete_entries[OF gh js g wf]
    by (simp add: r k compare_url_def)
qed

text \<open>
  C6. The fetcher does not skip every entry that lacks one of the four fields: the
  loop catches \<^verbatim>\<open>KeyError\<close> only. On a response whose first entry is complete and whose
  second entry has \<^verbatim>\<open>"author": null\<close> inside \<^verbatim>\<open>commit\<close>, so that it has no author name
  and no author date, \<^verbatim>\<open>c["commit"]["author"]["name"]\<close> raises \<^verbatim>\<open>TypeError\<close>, which leaves
  the function: no list is returned, the complete first entry is lost with the rest,
  and no skip warning is printed.
\<close>

theorem fetcher_null_author_fails_batch:
  "snd (get_github_commits_between
          (fixture (\<lambda>_. RequestFailed) (Completed 0 [] []) (Some null_author_response))
          (JStr (str ''org/repo'')) (JStr (str ''aaaaaaa1'')) (JStr (str ''bbbbbbb2'')))
     = Inl TypeError
   \<and> Print SkippingMalformedCommit
       \<notin> set (fst (get_github_commits_between
          (fixture (\<lambda>_. RequestFailed) (Completed 0 [] []) (Some null_author_response))
          (JStr (str ''org/repo'')) (JStr (str ''aaaaaaa1'')) (JStr (str ''bbbbbbb2''))))"
proof
  show "snd (get_github_commits_between
          (fixture (\<lambda>_. RequestFailed) (Completed 0 [] []) (Some null_author_response))
          (JStr (str ''org/repo'')) (JStr (str ''aaaaaaa1'')) (JStr (str ''bbbbbbb2'')))
     = Inl TypeError"
    by (simp add: snd_get_github_commits_between fixture_def null_author_response_def
        then_ok_def commit_info_def printed_line_def dict_getitem_def first_line_def
        snd_emit_then snd_and_then run_simps)
  show "Print SkippingMalformedCommit
       \<notin> set (fst (get_github_commits_between
          (fixture (\<lambda>_. RequestFailed) (Completed 0 [] []) (Some null_author_response))
          (JStr (str ''org/repo'')) (JStr (str ''aaaaaaa1'')) (JStr (str ''bbbbbbb2''))))"
    by (simp add: get_github_commits_between_def Let_def fixture_def null_author_response_def
        then_ok_def commit_info_def printed_line_def dict_getitem_def first_line_def
        run_defs)
qed

lemma py_slice7_len: "py_slice7 dx v = Inr v' \<Longrightarrow> \<exists>n. py_len v' = Inr n \<and> n \<le> 7"
  by (cases v) auto

lemma commit_info_shape:
  assumes "commit_info dx c = Inr info"
  shows "\<exists>sha m a d n. info = [((str ''sha''), sha), ((str ''message''), m), ((str ''author''), a), ((str ''date''), d)]
           \<and> py_len sha = Inr n \<and> n \<le> 7"
  using assms py_slice7_len
  unfolding commit_info_def then_ok_def
  by (fastforce split: sum.splits)

lemma printed_line_shape:
  "printed_line [((str ''sha''), sha), ((str ''message''), m), ((str ''author''), a), ((str ''date''), d)] =
     (case m of JStr s \<Rightarrow> Inr (CommitLine sha a d (first_line s)) | _ \<Rightarrow> Inl AttributeError)"
  by (cases m) (simp_all add: printed_line_def then_ok_def dict_getitem_def)

lemma collect_commits_full:
  "snd (collect_commits dx cs) = Inr cl \<Longrightarrow> \<forall>c\<in>set cl. full_record c"
proof (induction cs arbitrary: cl)
  case Nil
  then show ?case by (simp add: run_simps)
next
  case (Cons c cs)
  show ?case
  proof (cases "commit_info dx c")
    case (Inl e)
    with Cons show ?thesis
      by (auto simp: snd_emit_then run_simps split: if_splits)
  next
    case (Inr info)
    then obtain sha m a d n where
      info: "info = [((str ''sha''), sha), ((str ''message''), m), ((str ''author''), a), ((str ''date''), d)]"
      and len: "py_len sha = Inr n" "n \<le> 7"
      using commit_info_shape by blast
    show ?thesis
    proof (cases m)
      case (JStr s)
      with info len have fr: "full_record info" by (auto simp: full_record_def)
      from Cons.prems Inr info JStr obtain rest where
        "snd (collect_commits dx cs) = Inr rest" "cl = info # rest"
        by (auto simp: printed_line_shape snd_emit_then snd_and_then run_simps
            split: sum.splits)
      with Cons.IH fr show ?thesis by auto
    qed (use Cons.prems Inr info in \<open>auto simp: printed_line_shape run_simps\<close>)
  qed
qed


lemma full_record_refs: "full_record c \<Longrightarrow> \<exists>found. commit_refs c = Inr found"
  by (auto simp: full_record_def commit_refs_def then_ok_def dict_getitem_def)

lemma collect_refs_full:
  "\<forall>c\<in>set cl. full_record c \<Longrightarrow> fst (collect_refs cl refs) = []"
proof (induction cl arbitrary: refs)
  case Nil
  then show ?case by (simp add: run_simps)
next
  case (Cons c cl)
  from Cons.prems have "full_record c" by simp
  then obtain found where "commit_refs c = Inr found"
    using full_record_refs by blast
  with Cons show ?case by simp
qed

lemma analyze_commits_no_skip:
  assumes "\<forall>c\<in>set cl. full_record c"
  shows "Print SkippingMissingMessage \<notin> set (fst (analyze_commits cl base))"
  using collect_refs_full[OF assms, of "{}"]
  by (auto simp: analyze_commits_def fst_and_then run_simps Let_def split: sum.splits)

lemma full_record_line: "full_record c \<Longrightarrow> \<exists>line. commit_line w repo c = Inr line"
  by (auto simp: full_record_def commit_line_def then_ok_def dict_getitem_def Let_def)

lemma write_commits_full:
  "\<forall>c\<in>set cl. full_record c \<Longrightarrow>
     Print SkippingMissingField \<notin> set (fst (write_commits w repo cl))"
proof (induction cl)
  case Nil
  then show ?case by (simp add: run_simps)
next
  case (Cons c cl)
  from Cons.prems have "full_record c" by simp
  then obtain line where "commit_line w repo c = Inr line"
    using full_record_line by blast
  with Cons show ?case by (simp add: fst_emit_then)
qed

lemma export_to_markdown_no_skip:
  assumes "\<forall>c\<in>set cl. full_record c"
  shows "Print SkippingMissingField \<notin> set (fst (export_to_markdown w cl links repo url file))"
  using write_commits_full[OF assms, of w repo]
  by (auto simp: export_to_markdown_def fst_and_then fst_emit_then run_simps Let_def
      split: sum.splits if_splits)

text \<open>
  C10. Every commit record in a list that \<^verbatim>\<open>get_github_commits_between\<close> returns has
  the four keys \<^verbatim>\<open>sha\<close>, \<^verbatim>\<open>message\<close>, \<^verbatim>\<open>author\<close> and \<^verbatim>\<open>date\<close>, and its sha has length
  at most 7. On such a list neither \<^verbatim>\<open>analyze_commits\<close> nor \<^verbatim>\<open>export_to_markdown\<close>
  (with any other arguments) takes its branch for a missing field: the warning of
  that branch is not in their traces.
\<close>

theorem fetcher_records_complete:
  assumes "snd (get_github_commits_between w repo sha1 sha2) = Inr (commit_list, url)"
  shows "(\<forall>c\<in>set commit_list.
            (\<exists>sha n. map_of c (str ''sha'') = Some sha \<and> py_len sha = Inr n \<and> n \<le> 7)
            \<and> map_of c (str ''message'') \<noteq> None \<and> map_of c (str ''author'') \<noteq> None
            \<and> map_of c (str ''date'') \<noteq> None)
         \<and> Print SkippingMissingMessage \<notin> set (fst (analyze_commits commit_list base))
         \<and> Print SkippingMissingField
             \<notin> set (fst (export_to_markdown w' commit_list links repo' url' file))"
proof -
  from assms have "commit_list = []
      \<or> (\<exists>cs. snd (collect_commits (dict_slice_exn w) cs) = Inr commit_list)"
    by (auto simp: snd_get_github_commits_between then_ok_def
        split: sum.splits proc_outcome.splits if_splits option.splits)
  then have full: "\<forall>c\<in>set commit_list. full_record c"
    using collect_commits_full by auto
  then have "\<forall>c\<in>set commit_list.
            (\<exists>sha n. map_of c (str ''sha'') = Some sha \<and> py_len sha = Inr n \<and> n \<le> 7)
            \<and> map_of c (str ''message'') \<noteq> None \<and> map_of c (str ''author'') \<noteq> None
            \<and> map_of c (str ''date'') \<noteq> None"
    by (auto simp: full_record_def)
  with full show ?thesis
    using analyze_commits_no_skip export_to_markdown_no_skip by blast
qed


theorem fetcher_records_complete_witness:
  "Print SkippingMissingMessage \<notin> set (fst (analyze_commits sample_records default_jira_base_url))
   \<and> Print SkippingMissingField \<notin> set (fst (export_to_markdown
        (fixture (\<lambda>_. RequestFailed) (Completed 0 [] []) (Some sample_response))
        sample_records [] (JStr (str ''org/repo'')) (str ''url'') (str ''report.md'')))
   \<and> list_all (\<lambda>c. \<exists>sha n. map_of c (str ''sha'') = Some sha \<and> py_len sha = Inr n \<and> n \<le> 7)
        sample_records"
proof -
  let ?w = "fixture (\<lambda>_. RequestFailed) (Completed 0 [] []) (Some sample_response)"
  have "snd (get_github_commits_between ?w (JStr (str ''org/repo'')) (JStr (str ''aaaaaaa1''))
      (JStr (str ''bbbbbbb2'')))
     = Inr (sample_records, (str ''https://github.com/org/repo/compare/aaaaaaa1...bbbbbbb2''))"
    by (simp add: snd_get_github_commits_between then_ok_def fixture_def sample_response_def
        sample_records_def compare_url_def commit_info_def printed_line_def dict_getitem_def
        snd_and_then snd_emit_then run_simps)
  from fetcher_records_complete[OF this, of default_jira_base_url ?w "[]" "JStr (str ''org/repo'')"
      "(str ''url'')" "(str ''report.md'')"]
  show ?thesis by (simp add: list_all_iff)
qed

section \<open>The report\<close>

lemma sample_commit_line:
  "commit_line w (JStr (str ''org/repo''))
     [((str ''sha''), JStr (str ''abcdef1'')), ((str ''author''), JStr (str ''A'')),
      ((str ''date''), JStr (str ''2024-01-01T00:00:00Z'')),
      ((str ''message''), JStr ((str ''Fix #42'') @ [newline] @ (str ''body'')))]
   = Inr ((str ''- [abcdef1](https://github.com/org/repo/commit/abcdef1) | A | '')
          @ (str ''2024-01-01T00:00:00Z | Fix [#42](https://github.com/org/repo/pull/42)'')
          @ [newline])"
  by (simp add: commit_line_def then_ok_def dict_getitem_def Let_def evals pr_link_def)

text \<open>
  C7. For the commit record with sha \<^verbatim>\<open>abcdef1\<close>, author \<^verbatim>\<open>A\<close>, date
  \<^verbatim>\<open>2024-01-01T00:00:00Z\<close> and the two-line message \<^verbatim>\<open>Fix #42\<close>, \<^verbatim>\<open>body\<close>, and the
  repository \<^verbatim>\<open>org/repo\<close>, the commit line has the short sha linked to
  \<^verbatim>\<open>https://github.com/org/repo/commit/abcdef1\<close> and as summary the first line of
  the message only, its \<^verbatim>\<open>#42\<close> rewritten into a link to
  \<^verbatim>\<open>https://github.com/org/repo/pull/42\<close>. When the report file can be opened,
  \<^verbatim>\<open>export_to_markdown\<close> writes exactly this line in the commit section.
\<close>

theorem report_line_for_sample_commit:
  "commit_line w (JStr (str ''org/repo''))
     [((str ''sha''), JStr (str ''abcdef1'')), ((str ''author''), JStr (str ''A'')),
      ((str ''date''), JStr (str ''2024-01-01T00:00:00Z'')),
      ((str ''message''), JStr ((str ''Fix #42'') @ [newline] @ (str ''body'')))]
   = Inr ((str ''- [abcdef1](https://github.com/org/repo/commit/abcdef1) | A | '')
          @ (str ''2024-01-01T00:00:00Z | Fix [#42](https://github.com/org/repo/pull/42)'')
          @ [newline])
   \<and> (\<not> open_fails w file \<longrightarrow>
        export_to_markdown w
          [[((str ''sha''), JStr (str ''abcdef1'')), ((str ''author''), JStr (str ''A'')),
            ((str ''date''), JStr (str ''2024-01-01T00:00:00Z'')),
            ((str ''message''), JStr ((str ''Fix #42'') @ [newline] @ (str ''body'')))]]
          links (JStr (str ''org/repo'')) url file
        = ([FileOpen file,
            FileWrite ((str ''# Commit Report - '') @ now w @ [newline, newline]),
            FileWrite ((str ''**GitHub Compare URL:** ['') @ url @ (str '']('') @ url @ (str '')'')
                         @ [newline, newline]),
            FileWrite ((str ''## GitHub Commits'') @ [newline, newline]),
            FileWrite ((str ''- [abcdef1](https://github.com/org/repo/commit/abcdef1) | A | '')
                         @ (str ''2024-01-01T00:00:00Z | '')
                         @ (str ''Fix [#42](https://github.com/org/repo/pull/42)'') @ [newline]),
            FileWrite ([newline] @ (str ''## Ticket References'') @ [newline, newline])]
           @ (if links \<noteq> []
              then map (\<lambda>link. FileWrite ((str ''- '') @ link @ [newline])) links
              else [FileWrite ((str ''No ticket references found.'') @ [newline])])
           @ [FileWrite ([newline] @ (str ''_Report generated on '') @ now w @ (str ''_'') @ [newline]),
              Print (MarkdownCreated file)],
           Inr ()))"
  using sample_commit_line[of w]
  by (simp add: export_to_markdown_def and_then_def emit_def ret_def Let_def)

theorem report_line_for_sample_commit_witness:
  "FileWrite ((str ''- [abcdef1](https://github.com/org/repo/commit/abcdef1) | A | '')
                @ (str ''2024-01-01T00:00:00Z | '')
                @ (str ''Fix [#42](https://github.com/org/repo/pull/42)'') @ [newline])
     \<in> set (fst (export_to_markdown (fixture (\<lambda>_. RequestFailed) FileNotFound None)
          [[((str ''sha''), JStr (str ''abcdef1'')), ((str ''author''), JStr (str ''A'')),
            ((str ''date''), JStr (str ''2024-01-01T00:00:00Z'')),
            ((str ''message''), JStr ((str ''Fix #42'') @ [newline] @ (str ''body'')))]]
          [] (JStr (str ''org/repo'')) (str ''u'') (str ''report.md'')))"
proof -
  have "\<not> open_fails (fixture (\<lambda>_. RequestFailed) FileNotFound None) (str ''report.md'')"
    by (simp add: fixture_def)
  with report_line_for_sample_commit[of "fixture (\<lambda>_. RequestFailed) FileNotFound None"
      "(str ''report.md'')" "[]" "(str ''u'')"]
  show ?thesis by simp
qed

section \<open>The orchestrator\<close>

subsection \<open>What each stage prints and raises\<close>

lemma choose_builds_calm: "e \<in> set (fst (choose_builds argv bn)) \<Longrightarrow> calm e"
  by (auto simp: choose_builds_def fst_and_then fst_emit_then fst_lift_then run_simps calm_def
      split: if_splits sum.splits list.splits)

lemma warn_formats_calm: "e \<in> set (fst (warn_formats bs)) \<Longrightarrow> calm e"
  by (induction bs)
     (auto simp: fst_and_then fst_emit_then fst_lift_then run_simps calm_def
      split: if_splits sum.splits)

lemma py_no_exit:
  "py_get v k d \<noteq> Inl (SystemExit n)" "py_getitem v k \<noteq> Inl (SystemExit n)"
  "py_iter v \<noteq> Inl (SystemExit n)" "py_len v \<noteq> Inl (SystemExit n)"
  by (cases v; simp split: option.splits)+

lemma choose_builds_exit: "snd (choose_builds argv bn) = Inl (SystemExit n) \<Longrightarrow> n = 1"
  by (auto simp: choose_builds_def snd_and_then snd_emit_then snd_lift_then run_simps
      py_no_exit split: if_splits sum.splits list.splits)

lemma validate_no_exit: "validate_build_number b \<noteq> Inl (SystemExit n)"
  by (cases b) auto

lemma warn_formats_no_exit: "snd (warn_formats bs) \<noteq> Inl (SystemExit n)"
  by (induction bs)
     (auto simp: snd_and_then snd_emit_then snd_lift_then run_simps validate_no_exit
      split: if_splits sum.splits)

lemma first_succeeded_no_exit: "first_succeeded bs \<noteq> Inl (SystemExit n)"
  by (induction bs) (auto simp: py_no_exit split: sum.splits)

lemma resolver_no_exit:
  "snd (get_azure_build_commit w org project d br b pat) \<noteq> Inl (SystemExit n)"
  by (auto simp: snd_get_azure_build_commit then_ok_def py_no_exit first_succeeded_no_exit
      split: http_outcome.splits option.splits sum.splits if_splits)

lemma resolve_builds_no_exit: "snd (resolve_builds w g bs) \<noteq> Inl (SystemExit n)"
  by (induction bs)
     (auto simp: snd_and_then run_simps resolver_no_exit split: sum.splits)


lemma resolver_events:
  "e \<in> set (fst (get_azure_build_commit w org project d br b pat)) \<Longrightarrow>
     \<not> is_fetch e \<and> \<not> is_write e \<and> \<not> is_extract e \<and> (\<forall>url b'. e = HttpGet url b' \<longrightarrow> b' = b)"
  by (auto simp: get_azure_build_commit_def Let_def fst_and_then fst_emit_then fst_lift_then
      run_simps split: http_outcome.splits option.splits sum.splits if_splits)

lemma resolver_resolved:
  "length (filter is_resolved (fst (get_azure_build_commit w org project d br b pat))) =
     (case snd (get_azure_build_commit w org project d br b pat) of
        Inr sha \<Rightarrow> if truthy sha then 1 else 0
      | Inl e \<Rightarrow> 0)"
  by (auto simp: get_azure_build_commit_def Let_def fst_and_then fst_emit_then fst_lift_then
      snd_and_then snd_emit_then snd_lift_then run_simps
      split: http_outcome.splits option.splits sum.splits if_splits)

lemma resolve_builds_events:
  "e \<in> set (fst (resolve_builds w g bs)) \<Longrightarrow>
     \<not> is_fetch e \<and> \<not> is_write e \<and> \<not> is_extract e
     \<and> (\<forall>url b'. e = HttpGet url b' \<longrightarrow> b' \<in> set bs)"
proof (induction bs)
  case Nil
  then show ?case by (simp add: run_simps)
next
  case (Cons b bs)
  then show ?case
    using resolver_events[of e w "ORG g" "PROJECT g" "DEFINITION_ID g" "BRANCH g" b "AZURE_PAT g"]
    by (auto simp: fst_and_then run_simps split: sum.splits)
qed

lemma resolve_builds_resolved:
  "snd (resolve_builds w g bs) = Inr shas \<Longrightarrow>
     length (filter is_resolved (fst (resolve_builds w g bs))) = length shas"
proof (induction bs arbitrary: shas)
  case Nil
  then show ?case by (simp add: run_simps)
next
  case (Cons b bs)
  let ?r = "get_azure_build_commit w (ORG g) (PROJECT g) (DEFINITION_ID g) (BRANCH g) b
      (AZURE_PAT g)"
  from Cons.prems obtain sha rest where
    sha: "snd ?r = Inr sha" and rest: "snd (resolve_builds w g bs) = Inr rest"
    and shas: "shas = (if truthy sha then sha # rest else rest)"
    by (auto simp: snd_and_then run_simps split: sum.splits)
  from Cons.IH[OF rest] sha rest shas
    resolver_resolved[of w "ORG g" "PROJECT g" "DEFINITION_ID g" "BRANCH g" b "AZURE_PAT g"]
  show ?case
    by (simp add: fst_and_then run_simps)
qed

lemma resolve_builds_length:
  "snd (resolve_builds w g bs) = Inr shas \<Longrightarrow> length shas \<le> length bs"
proof (induction bs arbitrary: shas)
  case Nil
  then show ?case by (simp add: run_simps)
next
  case (Cons b bs)
  then show ?case
    by (fastforce simp: snd_and_then run_simps split: sum.splits if_splits)
qed


lemma main_unfold:
  "main w argv g =
     and_then (choose_builds argv (BUILD_NUMBERS g)) (\<lambda>(build1, build2).
     and_then (warn_formats [build1, build2]) (\<lambda>_.
     and_then (resolve_builds w g [build1, build2]) (after_resolve w g build1 build2)))"
  unfolding main_def after_resolve_def ..

lemma exit_code_Inl: "(\<And>n. e = SystemExit n \<Longrightarrow> n = 1) \<Longrightarrow> exit_code (l, Inl e) = 1"
  by (cases e) auto

lemma exit_code_other: "\<forall>n. e \<noteq> SystemExit n \<Longrightarrow> exit_code (l, Inl e) = 1"
  by (cases e) auto

lemma calm_D: "calm e \<Longrightarrow> \<not> is_resolved e \<and> \<not> is_request e \<and> \<not> is_fetch e \<and> \<not> is_write e
    \<and> \<not> is_extract e"
  by (simp add: calm_def)

text \<open>The four ways in which \<open>main\<close> can go up to the end of the resolution loop.\<close>

lemma main_cases:
  obtains
    (choose_raises) e where "snd (choose_builds argv (BUILD_NUMBERS g)) = Inl e"
      "main w argv g = (fst (choose_builds argv (BUILD_NUMBERS g)), Inl e)"
  | (warn_raises) b1 b2 e where "snd (choose_builds argv (BUILD_NUMBERS g)) = Inr (b1, b2)"
      "snd (warn_formats [b1, b2]) = Inl e"
      "main w argv g = (fst (choose_builds argv (BUILD_NUMBERS g)) @ fst (warn_formats [b1, b2]),
         Inl e)"
  | (resolve_raises) b1 b2 e where "snd (choose_builds argv (BUILD_NUMBERS g)) = Inr (b1, b2)"
      "snd (warn_formats [b1, b2]) = Inr ()"
      "snd (resolve_builds w g [b1, b2]) = Inl e"
      "main w argv g = (fst (choose_builds argv (BUILD_NUMBERS g)) @ fst (warn_formats [b1, b2])
         @ fst (resolve_builds w g [b1, b2]), Inl e)"
  | (resolved) b1 b2 shas where "snd (choose_builds argv (BUILD_NUMBERS g)) = Inr (b1, b2)"
      "snd (warn_formats [b1, b2]) = Inr ()"
      "snd (resolve_builds w g [b1, b2]) = Inr shas"
      "main w argv g = (fst (choose_builds argv (BUILD_NUMBERS g)) @ fst (warn_formats [b1, b2])
         @ fst (resolve_builds w g [b1, b2]) @ fst (after_resolve w g b1 b2 shas),
         snd (after_resolve w g b1 b2 shas))"
proof (cases "snd (choose_builds argv (BUILD_NUMBERS g))")
  case (Inl e)
  then show ?thesis using choose_raises by (simp add: main_unfold and_then_Inl)
next
  case (Inr bb)
  obtain b1 b2 where bb: "bb = (b1, b2)" by (cases bb)
  note c = Inr[unfolded bb]
  show ?thesis
  proof (cases "snd (warn_formats [b1, b2])")
    case (Inl e)
    then show ?thesis using warn_raises[OF c] c
      by (simp add: main_unfold and_then_Inl and_then_Inr
          del: warn_formats.simps resolve_builds.simps)
  next
    case wr: (Inr u)
    show ?thesis
    proof (cases "snd (resolve_builds w g [b1, b2])")
      case (Inl e)
      then show ?thesis using resolve_raises[OF c] c wr
        by (simp add: main_unfold and_then_Inl and_then_Inr
          del: warn_formats.simps resolve_builds.simps)
    next
      case (Inr shas)
      then show ?thesis using resolved[OF c] c wr
        by (simp add: main_unfold and_then_Inr del: warn_formats.simps resolve_builds.simps)
    qed
  qed
qed


lemma printed_line_CommitLine:
  "printed_line info = Inr line \<Longrightarrow> \<exists>sha a d m. line = CommitLine sha a d m"
  by (auto simp: printed_line_def then_ok_def split: sum.splits)

lemma collect_commits_events:
  "e \<in> set (fst (collect_commits dx cs)) \<Longrightarrow>
     \<not> is_resolved e \<and> \<not> is_request e \<and> \<not> is_fetch e \<and> \<not> is_write e \<and> \<not> is_extract e"
proof (induction cs)
  case Nil
  then show ?case by (simp add: run_simps)
next
  case (Cons c cs)
  then show ?case
    by (auto simp: fst_and_then fst_emit_then run_simps
        split: sum.splits if_splits dest!: printed_line_CommitLine)
qed

lemma fetcher_events:
  "e \<in> set (fst (get_github_commits_between w repo sha1 sha2)) \<Longrightarrow>
     \<not> is_resolved e \<and> \<not> is_request e \<and> \<not> is_write e \<and> \<not> is_extract e"
  using collect_commits_events[of e "dict_slice_exn w"]
  by (auto simp: get_github_commits_between_def Let_def fst_and_then fst_emit_then
      fst_lift_then run_simps
      split: proc_outcome.splits option.splits sum.splits if_splits)






lemma after_resolve_abort:
  "length shas < 2 \<Longrightarrow>
     after_resolve w g b1 b2 shas = ([Print CouldNotGetTwo], Inl (SystemExit 1))"
  by (simp add: after_resolve_def and_then_def emit_def raise_def)

lemma sample_choose:
  "choose_builds [(str ''script.py''), (str ''config.json''), (str ''1.2.3''), (str ''1.2.4'')] bn
     = ([Print (ComparingFromArgs (str ''1.2.3'') (str ''1.2.4''))], Inr (JStr (str ''1.2.3''), JStr (str ''1.2.4'')))"
  by (simp add: choose_builds_def run_defs)

lemma sample_valid: "matches_start build_pattern (str ''1.2.3'')" "matches_start build_pattern (str ''1.2.4'')"
  by (simp add: evals)+

lemma sample_warn: "warn_formats [JStr (str ''1.2.3''), JStr (str ''1.2.4'')] = ([], Inr ())"
  by (simp add: sample_valid run_defs)

subsection \<open>Fewer than two SHAs\<close>

text \<open>
  C8. A run of \<open>main\<close> in which fewer than two builds resolve ends with exit code 1,
  and its trace has neither the call of the \<^verbatim>\<open>gh\<close> tool nor an opening or a write of
  the report file. This covers every way of resolving fewer than two: the run may
  have stopped before or inside the resolution loop. When the loop completes with
  fewer than two SHAs, \<open>main\<close> prints the warning and raises \<^verbatim>\<open>SystemExit(1)\<close> as its
  next and last step.
\<close>

theorem fewer_than_two_shas_abort:
  "(length (filter is_resolved (fst (main w argv g))) < 2 \<longrightarrow>
      exit_code (main w argv g) = 1
      \<and> list_all (\<lambda>e. \<not> is_fetch e \<and> \<not> is_write e) (fst (main w argv g)))
   \<and> (snd (choose_builds argv (BUILD_NUMBERS g)) = Inr (b1, b2)
       \<and> snd (warn_formats [b1, b2]) = Inr ()
       \<and> snd (resolve_builds w g [b1, b2]) = Inr shas \<and> length shas < 2 \<longrightarrow>
      main w argv g =
        (fst (choose_builds argv (BUILD_NUMBERS g)) @ fst (warn_formats [b1, b2])
           @ fst (resolve_builds w g [b1, b2]) @ [Print CouldNotGetTwo],
         Inl (SystemExit 1)))"
proof -
  have 1: "exit_code (main w argv g) = 1
      \<and> list_all (\<lambda>e. \<not> is_fetch e \<and> \<not> is_write e) (fst (main w argv g))"
    if few: "length (filter is_resolved (fst (main w argv g))) < 2"
  proof (cases rule: main_cases[of argv g w])
    case (choose_raises e)
    then show ?thesis
      using choose_builds_exit[of argv "BUILD_NUMBERS g"]
      by (auto simp: list_all_iff exit_code_Inl dest!: choose_builds_calm calm_D)
  next
    case (warn_raises b1 b2 e)
    then show ?thesis
      using warn_formats_no_exit[of "[b1, b2]"]
      by (auto simp: list_all_iff exit_code_other
          simp del: warn_formats.simps resolve_builds.simps
          dest!: choose_builds_calm warn_formats_calm calm_D)
  next
    case (resolve_raises b1 b2 e)
    then show ?thesis
      using resolve_builds_no_exit[of w g "[b1, b2]"]
      by (auto simp: list_all_iff exit_code_other
          simp del: warn_formats.simps resolve_builds.simps
          dest!: choose_builds_calm warn_formats_calm calm_D resolve_builds_events)
  next
    case (resolved b1 b2 shas)
    from resolved(3) have n: "length (filter is_resolved (fst (resolve_builds w g [b1, b2])))
        = length shas"
      by (rule resolve_builds_resolved)
    with few resolved(4) have "length shas < 2"
      by (simp del: warn_formats.simps resolve_builds.simps)
    with resolved show ?thesis
      by (auto simp: after_resolve_abort list_all_iff
          simp del: warn_formats.simps resolve_builds.simps
          dest!: choose_builds_calm warn_formats_calm calm_D resolve_builds_events)
  qed
  have 2: "main w argv g =
        (fst (choose_builds argv (BUILD_NUMBERS g)) @ fst (warn_formats [b1, b2])
           @ fst (resolve_builds w g [b1, b2]) @ [Print CouldNotGetTwo],
         Inl (SystemExit 1))"
    if "snd (choose_builds argv (BUILD_NUMBERS g)) = Inr (b1, b2)
       \<and> snd (warn_formats [b1, b2]) = Inr ()
       \<and> snd (resolve_builds w g [b1, b2]) = Inr shas \<and> length shas < 2"
    using that
    by (simp add: main_unfold and_then_Inr after_resolve_abort
        del: warn_formats.simps resolve_builds.simps)
  from 1 2 show ?thesis by blast
qed

theorem fewer_than_two_shas_abort_witness:
  "exit_code (main (fixture (\<lambda>_. RequestFailed) FileNotFound None)
       [(str ''script.py''), (str ''config.json''), (str ''1.2.3''), (str ''1.2.4'')] (sample_globals (JArr []))) = 1
   \<and> list_all (\<lambda>e. \<not> is_fetch e \<and> \<not> is_write e)
       (fst (main (fixture (\<lambda>_. RequestFailed) FileNotFound None)
          [(str ''script.py''), (str ''config.json''), (str ''1.2.3''), (str ''1.2.4'')] (sample_globals (JArr []))))
   \<and> snd (main (fixture (\<lambda>bn. if bn = JStr (str ''1.2.3'') then sample_build else RequestFailed)
                   FileNotFound None)
       [(str ''script.py''), (str ''config.json''), (str ''1.2.3''), (str ''1.2.4'')] (sample_globals (JArr [])))
     = Inl (SystemExit 1)"
proof -
  let ?w = "fixture (\<lambda>_. RequestFailed) FileNotFound None"
  let ?v = "fixture (\<lambda>bn. if bn = JStr (str ''1.2.3'') then sample_build else RequestFailed)
      FileNotFound None"
  let ?argv = "[(str ''script.py''), (str ''config.json''), (str ''1.2.3''), (str ''1.2.4'')]"
  let ?g = "sample_globals (JArr [])"
  have r: "snd (resolve_builds ?w ?g [JStr (str ''1.2.3''), JStr (str ''1.2.4'')]) = Inr []"
    by (simp add: snd_and_then run_simps snd_get_azure_build_commit fixture_def)
  have m: "main ?w ?argv ?g =
      (fst (choose_builds ?argv (BUILD_NUMBERS ?g))
         @ fst (warn_formats [JStr (str ''1.2.3''), JStr (str ''1.2.4'')])
         @ fst (resolve_builds ?w ?g [JStr (str ''1.2.3''), JStr (str ''1.2.4'')]) @ [Print CouldNotGetTwo],
       Inl (SystemExit 1))"
    using fewer_than_two_shas_abort[of ?w ?argv ?g "JStr (str ''1.2.3'')" "JStr (str ''1.2.4'')" "[]"] r
    by (simp add: sample_choose sample_warn del: resolve_builds.simps warn_formats.simps)
  have "length (filter is_resolved (fst (main ?w ?argv ?g))) < 2"
    unfolding m using resolve_builds_resolved[OF r]
    by (simp add: sample_choose sample_warn del: warn_formats.simps resolve_builds.simps)
  then have 1: "exit_code (main ?w ?argv ?g) = 1
      \<and> list_all (\<lambda>e. \<not> is_fetch e \<and> \<not> is_write e) (fst (main ?w ?argv ?g))"
    using fewer_than_two_shas_abort[of ?w ?argv ?g] by blast
  have r': "snd (resolve_builds ?v ?g [JStr (str ''1.2.3''), JStr (str ''1.2.4'')])
      = Inr [JStr (str ''0123456789abcdef'')]"
    by (simp add: snd_and_then run_simps snd_get_azure_build_commit fixture_def sample_build_def
        then_ok_def)
  have 2: "snd (main ?v ?argv ?g) = Inl (SystemExit 1)"
    using fewer_than_two_shas_abort[of ?v ?argv ?g "JStr (str ''1.2.3'')" "JStr (str ''1.2.4'')"
        "[JStr (str ''0123456789abcdef'')]"] r'
    by (simp add: sample_choose sample_warn del: resolve_builds.simps warn_formats.simps)
  from 1 2 show ?thesis by simp
qed

subsection \<open>An empty commit range\<close>

text \<open>
  C9. When build selection and format validation pass, the resolution loop yields
  two SHAs and the fetcher returns an empty commit list, \<open>main\<close> returns normally
  (exit code 0): its trace is the traces of these four stages followed by the one
  message that no commits were found, and contains no print of \<^verbatim>\<open>analyze_commits\<close>
  and no opening or write of a report file.
\<close>

theorem empty_range_returns:
  assumes "snd (choose_builds argv (BUILD_NUMBERS g)) = Inr (b1, b2)"
    and "snd (warn_formats [b1, b2]) = Inr ()"
    and "snd (resolve_builds w g [b1, b2]) = Inr [sha1, sha2]"
    and "snd (get_github_commits_between w (GITHUB_REPO g) sha1 sha2) = Inr ([], url)"
  shows "main w argv g =
           (fst (choose_builds argv (BUILD_NUMBERS g)) @ fst (warn_formats [b1, b2])
              @ fst (resolve_builds w g [b1, b2])
              @ fst (get_github_commits_between w (GITHUB_REPO g) sha1 sha2)
              @ [Print NoCommitsFound],
            Inr ())
         \<and> exit_code (main w argv g) = 0
         \<and> list_all (\<lambda>e. \<not> is_extract e \<and> \<not> is_write e) (fst (main w argv g))"
proof -
  have m: "main w argv g =
           (fst (choose_builds argv (BUILD_NUMBERS g)) @ fst (warn_formats [b1, b2])
              @ fst (resolve_builds w g [b1, b2])
              @ fst (get_github_commits_between w (GITHUB_REPO g) sha1 sha2)
              @ [Print NoCommitsFound],
            Inr ())"
    using assms
    by (simp add: main_unfold and_then_Inr after_resolve_def emit_def
        del: warn_formats.simps resolve_builds.simps)
  show ?thesis
    unfolding m
    by (auto simp: list_all_iff simp del: warn_formats.simps resolve_builds.simps
        dest!: choose_builds_calm warn_formats_calm calm_D resolve_builds_events fetcher_events)
qed


theorem empty_range_returns_witness:
  "snd (main (fixture (\<lambda>_. sample_build) (Completed 0 [] []) (Some (JObj [((str ''commits''), JArr [])])))
       [(str ''script.py''), (str ''config.json''), (str ''1.2.3''), (str ''1.2.4'')] (sample_globals (JArr []))) = Inr ()
   \<and> exit_code (main (fixture (\<lambda>_. sample_build) (Completed 0 [] [])
                        (Some (JObj [((str ''commits''), JArr [])])))
       [(str ''script.py''), (str ''config.json''), (str ''1.2.3''), (str ''1.2.4'')] (sample_globals (JArr []))) = 0
   \<and> last (fst (main (fixture (\<lambda>_. sample_build) (Completed 0 [] [])
                        (Some (JObj [((str ''commits''), JArr [])])))
       [(str ''script.py''), (str ''config.json''), (str ''1.2.3''), (str ''1.2.4'')] (sample_globals (JArr []))))
     = Print NoCommitsFound"
proof -
  let ?w = "fixture (\<lambda>_. sample_build) (Completed 0 [] []) (Some (JObj [((str ''commits''), JArr [])]))"
  let ?argv = "[(str ''script.py''), (str ''config.json''), (str ''1.2.3''), (str ''1.2.4'')]"
  let ?g = "sample_globals (JArr [])"
  let ?sha = "JStr (str ''0123456789abcdef'')"
  have c: "snd (choose_builds ?argv (BUILD_NUMBERS ?g)) = Inr (JStr (str ''1.2.3''), JStr (str ''1.2.4''))"
    by (simp add: sample_choose)
  have v: "snd (warn_formats [JStr (str ''1.2.3''), JStr (str ''1.2.4'')]) = Inr ()"
    by (simp add: sample_warn del: warn_formats.simps)
  have r: "snd (resolve_builds ?w ?g [JStr (str ''1.2.3''), JStr (str ''1.2.4'')]) = Inr [?sha, ?sha]"
    by (simp add: snd_and_then run_simps snd_get_azure_build_commit fixture_def sample_build_def
        then_ok_def)
  have f: "snd (get_github_commits_between ?w (GITHUB_REPO ?g) ?sha ?sha)
      = Inr ([], compare_url ?w (GITHUB_REPO ?g) ?sha ?sha)"
    by (simp add: snd_get_github_commits_between then_ok_def fixture_def run_simps)
  from empty_range_returns[OF c v r f] show ?thesis
    by (simp del: warn_formats.simps resolve_builds.simps)
qed

subsection \<open>The source of the build numbers\<close>
















end
